theory Spec2Isabelle
  imports Complex_Main
begin

section \<open>Numbers, paths and errors\<close>

text \<open>
  The scripts compute with JavaScript numbers. Scores, weights and thresholds are
  modelled as exact rationals: the claims checked here are about comparisons, rounding
  to a fixed number of decimals and ordering, and none of them depends on the binary
  representation. NaN is not a value of the model.

  \<^verbatim>\<open>Math.round(x)\<close> is the integer nearest to \<open>x\<close>, a half rounding up.
\<close>

definition Math_round :: "rat \<Rightarrow> int" where
  "Math_round x = \<lfloor>x + 1 / 2\<rfloor>"

text \<open>\<^verbatim>\<open>Math.round(similarity * 100) / 100\<close> (find-similar, the reported score).\<close>

definition round2 :: "rat \<Rightarrow> rat" where
  "round2 s = of_int (Math_round (s * 100)) / 100"

text \<open>\<^verbatim>\<open>Math.round(vec[i] * 10000) / 10000\<close> (index-workspace, the stored weight).\<close>

definition round4 :: "rat \<Rightarrow> rat" where
  "round4 w = of_int (Math_round (w * 10000)) / 10000"

text \<open>
  Paths are strings, as in the scripts. The functions of \<^verbatim>\<open>node:path\<close> and
  \<^verbatim>\<open>node:fs\<close>, \<^verbatim>\<open>JSON.parse\<close> and the vectorizer library are not code of the
  scripts: they are parameters, collected in the record \<open>platform\<close> below.
\<close>

type_synonym path = string

text \<open>
  What a JavaScript function can do besides returning: throw, or end the process
  with \<^verbatim>\<open>process.exit(code)\<close>; \<open>Exited\<close> carries the exit code and the lines the
  function wrote with \<^verbatim>\<open>console.error\<close> before. (What \<^verbatim>\<open>console.log\<close> prints
  is not modelled.) An error of the file system carries a \<^verbatim>\<open>code\<close> and a
  \<^verbatim>\<open>message\<close>.
\<close>

datatype fs_error = FsErr (err_code: string) (err_message: string)

datatype js_error =
    FsError fs_error
  | SyntaxError
  | TypeError
  | Error string

fun code :: "js_error \<Rightarrow> string option" where
  "code (FsError e) = Some (err_code e)"
| "code _ = None"

datatype 'a outcome =
    Returned 'a
  | Thrown js_error
  | Exited int "string list"

section \<open>shared.mjs\<close>

definition DEFAULT_hashDim :: nat where
  "DEFAULT_hashDim = 2048"

definition DEFAULT_contentExcerptLength :: nat where
  "DEFAULT_contentExcerptLength = 1000"

definition DEFAULT_threshold :: rat where
  "DEFAULT_threshold = 1 / 10"

definition DEFAULT_top :: int where
  "DEFAULT_top = 10"

definition DEFAULT_allowedExtensions :: "string list" where
  "DEFAULT_allowedExtensions =
     [''.md'', ''.ts'', ''.tsx'', ''.js'', ''.jsx'', ''.py'', ''.rs'', ''.go'']"

definition DEFAULT_excludedDirs :: "string list" where
  "DEFAULT_excludedDirs =
     [''node_modules'', ''venv'', ''.venv'', ''target'', ''.git'', ''dist'', ''build'',
      ''__pycache__'', ''.pnpm-store'', ''.netlify'', ''archives'', ''.next'', ''.cache'',
      ''coverage'']"

definition getDefaultIndexDir :: "(path \<Rightarrow> string \<Rightarrow> path) \<Rightarrow> path \<Rightarrow> path" where
  "getDefaultIndexDir join workspaceRoot = join workspaceRoot ''.similar-files''"

definition getIndexFile :: "(path \<Rightarrow> string \<Rightarrow> path) \<Rightarrow> path \<Rightarrow> path" where
  "getIndexFile join indexDir = join indexDir ''index.json''"

text \<open>
  A sparse vector is a JavaScript object from bucket index to weight; it is modelled
  as the list of its entries in the order \<^verbatim>\<open>Object.entries\<close> yields them. A dense
  vector is an array; an element that was never assigned (a hole, read as
  \<^verbatim>\<open>undefined\<close>) is \<open>None\<close>.

  \<^verbatim>\<open>dense[k] = val\<close> inside the array overwrites; beyond its end JavaScript extends the
  array, leaving holes between the old end and \<open>k\<close>.
\<close>

type_synonym sparse = "(nat \<times> rat) list"
type_synonym dense = "rat option list"

definition array_set :: "dense \<Rightarrow> nat \<Rightarrow> rat \<Rightarrow> dense" where
  "array_set d k v =
     (if k < length d then d[k := Some v]
      else d @ replicate (k - length d) None @ [Some v])"

text \<open>
  \<^verbatim>\<open>new Array(dim).fill(0)\<close>: \<open>dim\<close> zeros; when \<open>dim\<close> is \<^verbatim>\<open>undefined\<close> (the index has
  no \<^verbatim>\<open>hashDim\<close>), \<^verbatim>\<open>new Array(undefined)\<close> is the one-element array, filled with 0.
\<close>

definition new_Array_fill0 :: "nat option \<Rightarrow> dense" where
  "new_Array_fill0 dimension = (case dimension of None \<Rightarrow> [Some 0] | Some n \<Rightarrow> replicate n (Some 0))"

fun expand_loop :: "sparse \<Rightarrow> dense \<Rightarrow> dense" where
  "expand_loop [] d = d"
| "expand_loop ((idx, val) # rest) d = expand_loop rest (array_set d idx val)"

definition expandSparseVector :: "sparse \<Rightarrow> nat option \<Rightarrow> dense" where
  "expandSparseVector sp dimension = expand_loop sp (new_Array_fill0 dimension)"

section \<open>The index file\<close>

record doc_meta =
  m_id :: string
  m_path :: path
  m_title :: string
  m_fingerprint :: string
  m_ext :: string
  m_tags :: "string list"

text \<open>
  The object \<^verbatim>\<open>JSON.parse\<close> returns for an index file. Every top-level field may
  be missing (\<open>None\<close>, read as \<^verbatim>\<open>undefined\<close>); the two sequences are independent
  lists, so their lengths may differ. The values that are present have the types
  the build writes.
\<close>

record index =
  version :: "nat option"
  created :: "string option"
  root_path :: "path option"
  hashDim :: "nat option"
  docCount :: "nat option"
  metadata :: "doc_meta list option"
  vectors :: "sparse list option"

text \<open>
  \<^verbatim>\<open>JSON.parse\<close> throws a SyntaxError (\<open>None\<close> below), returns \<^verbatim>\<open>null\<close>, or returns a
  value whose properties can be read; a value without the index's fields (a number,
  a string, an array, another object) is an \<open>index\<close> with every field missing.
\<close>

datatype json = JNull | JObject index

text \<open>Truthiness of the fields the scripts test.\<close>

definition truthy_num :: "nat option \<Rightarrow> bool" where
  "truthy_num v = (case v of None \<Rightarrow> False | Some n \<Rightarrow> n \<noteq> 0)"

definition truthy_str :: "string option \<Rightarrow> bool" where
  "truthy_str v = (case v of None \<Rightarrow> False | Some p \<Rightarrow> p \<noteq> [])"

definition truthy_obj :: "'a option \<Rightarrow> bool" where
  "truthy_obj v = (case v of None \<Rightarrow> False | Some _ \<Rightarrow> True)"

section \<open>find-similar\<close>

text \<open>
  The platform the scripts run on: the file system as \<^verbatim>\<open>readFile\<close> sees it, the
  working directory, \<^verbatim>\<open>JSON.parse\<close>, the path functions, and the functions of the
  vectorizer library. \<^verbatim>\<open>vectorizeDocuments\<close> takes the documents and the two options
  the scripts set (\<^verbatim>\<open>contentExcerptLength\<close>, \<^verbatim>\<open>hashDim\<close>) and returns the
  \<^verbatim>\<open>vectors\<close> of its result (\<^verbatim>\<open>useHashing\<close> is always true). \<^verbatim>\<open>mkdir\<close> and \<^verbatim>\<open>writeFile\<close> give the error they
  throw, if any; \<open>now\<close> is \<^verbatim>\<open>new Date().toISOString()\<close>. \<^verbatim>\<open>resolve\<close> with one argument
  resolves against the working directory.
\<close>

record document =
  d_id :: string
  d_title :: string
  d_content :: string

record platform =
  readFile :: "path \<Rightarrow> fs_error + string"
  JSON_parse :: "string \<Rightarrow> json option"
  cwd :: path
  path_join :: "path \<Rightarrow> string \<Rightarrow> path"
  isAbsolute :: "path \<Rightarrow> bool"
  resolve :: "path \<Rightarrow> path \<Rightarrow> path"
  relative :: "path \<Rightarrow> path \<Rightarrow> path"
  stripFrontmatter :: "string \<Rightarrow> string"
  vectorizeDocuments :: "document list \<Rightarrow> nat \<Rightarrow> nat option \<Rightarrow> rat list list"
  cosineSimilarity :: "rat list option \<Rightarrow> dense \<Rightarrow> rat"
  extname :: "string \<Rightarrow> string"
  toLowerCase :: "string \<Rightarrow> string"
  fingerprintText :: "string \<Rightarrow> string"
  mkdir :: "path \<Rightarrow> fs_error option"
  writeFile :: "path \<Rightarrow> fs_error option"
  now :: string

record options =
  query :: string
  isText :: bool
  top_n :: int
  threshold :: rat
  indexDir :: "path option"
  json :: bool
  help_flag :: bool

text \<open>The \<^verbatim>\<open>catch\<close> block of \<^verbatim>\<open>loadIndex\<close>.\<close>

definition loadIndex_catch :: "path \<Rightarrow> js_error \<Rightarrow> 'a outcome" where
  "loadIndex_catch indexFile err =
     (if code err = Some ''ENOENT''
      then Exited 1
             [''Index not found at: '' @ indexFile,
              [],
              ''To create an index, run:'',
              ''  similar-index --root /path/to/workspace'']
      else Thrown err)"

definition loadIndex :: "platform \<Rightarrow> path option \<Rightarrow> (index \<times> path) outcome" where
  "loadIndex pf indexDir_arg =
     (let dir = (if truthy_str indexDir_arg then the indexDir_arg
                 else getDefaultIndexDir (path_join pf) (cwd pf));
          indexFile = getIndexFile (path_join pf) dir
      in case readFile pf indexFile of
           Inl err \<Rightarrow> loadIndex_catch indexFile (FsError err)
         | Inr data \<Rightarrow>
             (case JSON_parse pf data of
                None \<Rightarrow> loadIndex_catch indexFile SyntaxError
              | Some JNull \<Rightarrow> loadIndex_catch indexFile TypeError
              | Some (JObject idx) \<Rightarrow>
                  if \<not> truthy_num (version idx) \<or> \<not> truthy_obj (vectors idx)
                     \<or> \<not> truthy_obj (metadata idx)
                  then loadIndex_catch indexFile (Error ''Invalid index format'')
                  else Returned (idx, indexFile)))"

record query_content =
  content :: string
  title :: string
  absolutePath :: "path option"

definition getQueryContent ::
  "platform \<Rightarrow> string \<Rightarrow> bool \<Rightarrow> path option \<Rightarrow> query_content outcome" where
  "getQueryContent pf q is_text workspaceRoot =
     (if is_text then Returned \<lparr>content = q, title = ''Query'', absolutePath = None\<rparr>
      else
        let filePath = (if \<not> isAbsolute pf q then resolve pf (cwd pf) q else q)
        in case readFile pf filePath of
             Inr file_content \<Rightarrow>
               let relativePath = (if truthy_str workspaceRoot
                                   then relative pf (the workspaceRoot) filePath
                                   else q)
               in Returned \<lparr>content = stripFrontmatter pf file_content,
                            title = relativePath,
                            absolutePath = Some filePath\<rparr>
           | Inl err \<Rightarrow> Exited 1 [''Cannot read file: '' @ q, err_message err])"

record result_entry =
  r_path :: path
  r_title :: string
  similarity :: rat
  r_ext :: string

text \<open>
  \<^verbatim>\<open>index.metadata[i]\<close>: past the end of the array the value is \<^verbatim>\<open>undefined\<close>, and
  reading a property of it throws a TypeError.
\<close>

definition metadata_at :: "doc_meta list \<Rightarrow> nat \<Rightarrow> js_error + doc_meta" where
  "metadata_at ms i = (if i < length ms then Inr (ms ! i) else Inl TypeError)"

text \<open>
  The self-match test of the loop, for a file query: the two \<^verbatim>\<open>continue\<close>
  conditions on the document's path.
\<close>

definition self_match :: "platform \<Rightarrow> path option \<Rightarrow> query_content \<Rightarrow> doc_meta \<Rightarrow> bool" where
  "self_match pf workspaceRoot qc m =
     (let docAbsPath = (if truthy_str workspaceRoot
                        then resolve pf (the workspaceRoot) (m_path m)
                        else m_path m)
      in (truthy_str (absolutePath qc) \<and> Some docAbsPath = absolutePath qc)
         \<or> m_path m = title qc)"

text \<open>The object pushed for document \<open>m\<close> with full-precision score \<open>sim\<close>.\<close>

definition entry_of :: "doc_meta \<Rightarrow> rat \<Rightarrow> result_entry" where
  "entry_of m sim =
     \<lparr>r_path = m_path m, r_title = m_title m, similarity = round2 sim, r_ext = m_ext m\<rparr>"

text \<open>
  One pass of the \<^verbatim>\<open>for\<close> loop body at position \<open>i\<close>: the results after it, or
  the error it throws.
\<close>

definition findSimilar_body ::
  "platform \<Rightarrow> options \<Rightarrow> sparse list \<Rightarrow> doc_meta list \<Rightarrow> nat option \<Rightarrow> path option
   \<Rightarrow> query_content \<Rightarrow> rat list option
   \<Rightarrow> nat \<Rightarrow> result_entry list \<Rightarrow> js_error + result_entry list" where
  "findSimilar_body pf opts vecs metas hdim workspaceRoot qc queryVector i results =
     (let docVector = expandSparseVector (vecs ! i) hdim;
          sim = cosineSimilarity pf queryVector docVector;
          push = (if sim \<ge> threshold opts
                  then (case metadata_at metas i of
                          Inl e \<Rightarrow> Inl e
                        | Inr m \<Rightarrow> Inr (results @ [entry_of m sim]))
                  else Inr results)
      in if \<not> isText opts
         then (case metadata_at metas i of
                 Inl e \<Rightarrow> Inl e
               | Inr m \<Rightarrow> if self_match pf workspaceRoot qc m then Inr results else push)
         else push)"

function findSimilar_loop ::
  "platform \<Rightarrow> options \<Rightarrow> sparse list \<Rightarrow> doc_meta list \<Rightarrow> nat option \<Rightarrow> path option
   \<Rightarrow> query_content \<Rightarrow> rat list option
   \<Rightarrow> nat \<Rightarrow> result_entry list \<Rightarrow> js_error + result_entry list" where
  "findSimilar_loop pf opts vecs metas hdim workspaceRoot qc queryVector i results =
     (if i < length vecs
      then (case findSimilar_body pf opts vecs metas hdim workspaceRoot qc queryVector i results of
              Inl e \<Rightarrow> Inl e
            | Inr results' \<Rightarrow>
                findSimilar_loop pf opts vecs metas hdim workspaceRoot qc queryVector (i + 1) results')
      else Inr results)"
  by pat_completeness auto
termination
  by (relation "measure (\<lambda>(pf, opts, vecs, metas, hdim, workspaceRoot, qc, queryVector, i, results).
                  length vecs - i)") auto

declare findSimilar_loop.simps [simp del]

text \<open>
  \<^verbatim>\<open>Array.prototype.sort\<close> with a comparator is stable: an element goes before another
  when the comparator is negative, and elements the comparator does not separate keep
  their order. For a consistent comparator that fixes the result; it is computed here
  by insertion from the right.
\<close>

fun sort_insert :: "('a \<Rightarrow> 'a \<Rightarrow> rat) \<Rightarrow> 'a \<Rightarrow> 'a list \<Rightarrow> 'a list" where
  "sort_insert cmp x [] = [x]"
| "sort_insert cmp x (y # ys) =
     (if cmp x y \<le> 0 then x # y # ys else y # sort_insert cmp x ys)"

fun Array_sort :: "('a \<Rightarrow> 'a \<Rightarrow> rat) \<Rightarrow> 'a list \<Rightarrow> 'a list" where
  "Array_sort cmp [] = []"
| "Array_sort cmp (x # xs) = sort_insert cmp x (Array_sort cmp xs)"

text \<open>
  \<^verbatim>\<open>results.slice(0, end)\<close>: a negative \<open>end\<close> counts from the end of the array.
  (A \<^verbatim>\<open>--top\<close> value that \<^verbatim>\<open>parseInt\<close> turns into NaN behaves as \<open>end = 0\<close>.)
\<close>

definition slice0 :: "'a list \<Rightarrow> int \<Rightarrow> 'a list" where
  "slice0 xs e =
     (let len = int (length xs);
          final = (if e < 0 then max (len + e) 0 else min e len)
      in take (nat final) xs)"

record find_result =
  results :: "result_entry list"
  fr_query :: string
  fr_workspaceRoot :: "path option"

text \<open>The comparator of the sort: \<^verbatim>\<open>(a, b) => b.similarity - a.similarity\<close>.\<close>

definition by_similarity :: "result_entry \<Rightarrow> result_entry \<Rightarrow> rat" where
  "by_similarity a b = similarity b - similarity a"

definition query_vector :: "platform \<Rightarrow> index \<Rightarrow> query_content \<Rightarrow> rat list option" where
  "query_vector pf idx qc =
     (case vectorizeDocuments pf
             [\<lparr>d_id = ''query'', d_title = title qc, d_content = content qc\<rparr>]
             DEFAULT_contentExcerptLength (hashDim idx) of
        [] \<Rightarrow> None
      | v # _ \<Rightarrow> Some v)"

text \<open>\<^verbatim>\<open>index.root || null\<close>.\<close>

definition workspaceRoot_of :: "index \<Rightarrow> path option" where
  "workspaceRoot_of idx = (if truthy_str (root_path idx) then root_path idx else None)"

definition findSimilar :: "platform \<Rightarrow> options \<Rightarrow> find_result outcome" where
  "findSimilar pf opts =
     (case loadIndex pf (indexDir opts) of
        Thrown e \<Rightarrow> Thrown e
      | Exited c out \<Rightarrow> Exited c out
      | Returned (idx, indexFile) \<Rightarrow>
          let workspaceRoot = workspaceRoot_of idx
          in case getQueryContent pf (query opts) (isText opts) workspaceRoot of
               Thrown e \<Rightarrow> Thrown e
             | Exited c out \<Rightarrow> Exited c out
             | Returned qc \<Rightarrow>
                 let queryVector = query_vector pf idx qc
                 in case (vectors idx, metadata idx) of
                      (Some vecs, Some metas) \<Rightarrow>
                        (case findSimilar_loop pf opts vecs metas (hashDim idx) workspaceRoot
                                qc queryVector 0 [] of
                           Inl e \<Rightarrow> Thrown e
                         | Inr rs \<Rightarrow>
                             Returned \<lparr>results = slice0 (Array_sort by_similarity rs) (top_n opts),
                                       fr_query = (if isText opts then query opts else title qc),
                                       fr_workspaceRoot = workspaceRoot\<rparr>)
                    | _ \<Rightarrow> Thrown TypeError)"

section \<open>index-workspace\<close>

text \<open>
  The options object of the build. \<^verbatim>\<open>parseBaseArgs\<close> fills \<^verbatim>\<open>root\<close> and \<^verbatim>\<open>indexDir\<close>;
  \<^verbatim>\<open>collectFiles\<close> also reads \<^verbatim>\<open>excludedDirs\<close> and \<^verbatim>\<open>allowedExtensions\<close>, with the
  defaults of shared.mjs when they are absent (an array, even an empty one, is truthy).
\<close>

record build_options =
  opt_root :: "path option"
  opt_indexDir :: "path option"
  excludedDirs :: "string list option"
  allowedExtensions :: "string list option"

text \<open>
  What \<^verbatim>\<open>readdir(dir, {withFileTypes: true})\<close> yields: entries that are files,
  directories, or neither (links, sockets, ...). A directory carries the listing that
  \<^verbatim>\<open>readdir\<close> will give for it, or \<open>None\<close> when \<^verbatim>\<open>readdir\<close> throws there. The
  tree is finite, as a file system without followed links is.
\<close>

datatype dirent =
    File string
  | Other string
  | Directory string "dirent list option"

fun name :: "dirent \<Rightarrow> string" where
  "name (File n) = n"
| "name (Other n) = n"
| "name (Directory n listing) = n"

text \<open>\<^verbatim>\<open>s.startsWith(p)\<close>.\<close>

definition startsWith :: "string \<Rightarrow> string \<Rightarrow> bool" where
  "startsWith s p = (take (length p) s = p)"

definition excludedSet :: "build_options \<Rightarrow> string set" where
  "excludedSet opts = set (case excludedDirs opts of Some ds \<Rightarrow> ds | None \<Rightarrow> DEFAULT_excludedDirs)"

definition allowedSet :: "build_options \<Rightarrow> string set" where
  "allowedSet opts =
     set (case allowedExtensions opts of Some es \<Rightarrow> es | None \<Rightarrow> DEFAULT_allowedExtensions)"

text \<open>
  \<^verbatim>\<open>collectFiles(dir, options, files)\<close>, with the listing of \<open>dir\<close> as an argument;
  \<open>collect_entries\<close> is its \<^verbatim>\<open>for\<close> loop over the entries. The array \<open>files\<close> is
  shared by all the calls: each returns it, extended.
\<close>

fun collectFiles ::
  "platform \<Rightarrow> build_options \<Rightarrow> path \<Rightarrow> dirent list option \<Rightarrow> path list \<Rightarrow> path list"
and collect_entries ::
  "platform \<Rightarrow> build_options \<Rightarrow> path \<Rightarrow> dirent list \<Rightarrow> path list \<Rightarrow> path list" where
  "collectFiles pf opts dir None files = files"
| "collectFiles pf opts dir (Some entries) files = collect_entries pf opts dir entries files"
| "collect_entries pf opts dir [] files = files"
| "collect_entries pf opts dir (File n # rest) files =
     collect_entries pf opts dir rest
       (if toLowerCase pf (extname pf n) \<in> allowedSet opts
        then files @ [path_join pf dir n] else files)"
| "collect_entries pf opts dir (Other n # rest) files =
     collect_entries pf opts dir rest files"
| "collect_entries pf opts dir (Directory n listing # rest) files =
     collect_entries pf opts dir rest
       (if n \<notin> excludedSet opts \<and> \<not> startsWith n ''.''
        then collectFiles pf opts (path_join pf dir n) listing files else files)"

text \<open>
  The functions the build calls on a file inside its \<^verbatim>\<open>try\<close> block, and the call
  of the vectorizer, can throw. \<^verbatim>\<open>buildEnrichedContent\<close> does so through
  \<^verbatim>\<open>parseFrontmatter\<close>, for instance on a frontmatter key \<^verbatim>\<open>constructor\<close> that is
  followed by a list item (\<^verbatim>\<open>frontmatter[currentKey].push\<close> is then not a function);
  its result here is the message of the error thrown, or the three parts it returns.
  \<^verbatim>\<open>extractTitle\<close> only matches and trims. For the two library calls,
  \<open>fingerprint_error\<close> and \<open>vectorize_error\<close> give the error thrown, if any; when
  there is none, \<open>fingerprintText\<close> and \<open>vectorizeDocuments\<close> of the platform give
  the value.
\<close>

record frontmatter =
  fm_title :: "string option"
  fm_description :: "string option"
  fm_tags :: "string list option"

record build_functions =
  buildEnrichedContent :: "string \<Rightarrow> path \<Rightarrow> string + (string \<times> frontmatter option \<times> string)"
  extractTitle :: "string \<Rightarrow> path \<Rightarrow> frontmatter option \<Rightarrow> string"
  fingerprint_error :: "string \<Rightarrow> string option"
  vectorize_error :: "document list \<Rightarrow> js_error option"

text \<open>\<^verbatim>\<open>frontmatter?.tags || []\<close>.\<close>

definition tags_of :: "frontmatter option \<Rightarrow> string list" where
  "tags_of fm = (case fm of None \<Rightarrow> []
                 | Some f \<Rightarrow> (case fm_tags f of None \<Rightarrow> [] | Some ts \<Rightarrow> ts))"

text \<open>
  The \<^verbatim>\<open>try\<close> block for one file: the document and the metadata record it pushes, or
  the message of the error that reaches the \<^verbatim>\<open>catch\<close>, from \<^verbatim>\<open>readFile\<close> or from a
  later call. The two pushes are the last statements of the block, and nothing
  between them throws.
\<close>

definition try_file ::
  "platform \<Rightarrow> build_functions \<Rightarrow> path \<Rightarrow> path \<Rightarrow> string + (document \<times> doc_meta)" where
  "try_file pf tf root_dir filePath =
     (case readFile pf filePath of
        Inl err \<Rightarrow> Inl (err_message err)
      | Inr file_content \<Rightarrow>
          let relativePath = relative pf root_dir filePath
          in case buildEnrichedContent tf file_content filePath of
               Inl msg \<Rightarrow> Inl msg
             | Inr (enrichedContent, fm, body) \<Rightarrow>
                 let title = extractTitle tf body filePath fm
                 in case fingerprint_error tf file_content of
                      Some msg \<Rightarrow> Inl msg
                    | None \<Rightarrow>
                        let fingerprint = fingerprintText pf file_content
                        in Inr (\<lparr>d_id = relativePath, d_title = title,
                                  d_content = enrichedContent\<rparr>,
                                \<lparr>m_id = relativePath, m_path = relativePath, m_title = title,
                                  m_fingerprint = fingerprint,
                                  m_ext = toLowerCase pf (extname pf filePath),
                                  m_tags = tags_of fm\<rparr>))"

text \<open>
  The loop over the collected files. Its state is the two arrays \<^verbatim>\<open>docs\<close> and
  \<^verbatim>\<open>metadata\<close> and the lines written by \<^verbatim>\<open>console.warn\<close>; the \<^verbatim>\<open>catch\<close> writes
  one line and goes on to the next file.
\<close>

record read_state =
  docs :: "document list"
  metas :: "doc_meta list"
  warned :: "string list"

fun read_files ::
  "platform \<Rightarrow> build_functions \<Rightarrow> path \<Rightarrow> path list \<Rightarrow> read_state \<Rightarrow> read_state" where
  "read_files pf tf root_dir [] st = st"
| "read_files pf tf root_dir (filePath # rest) st =
     read_files pf tf root_dir rest
       (case try_file pf tf root_dir filePath of
          Inr (doc, meta) \<Rightarrow>
            st\<lparr>docs := docs st @ [doc], metas := metas st @ [meta]\<rparr>
        | Inl msg \<Rightarrow>
            st\<lparr>warned := warned st @ [''Skipping '' @ filePath @ '': '' @ msg]\<rparr>)"

text \<open>
  The callback of \<^verbatim>\<open>vectors.map\<close>: the loop over the positions of \<open>vec\<close>, from
  position \<open>i\<close> on, adding a property to the object \<open>sp\<close> for each weight that is not 0.
\<close>

fun sparse_loop :: "rat list \<Rightarrow> nat \<Rightarrow> sparse \<Rightarrow> sparse" where
  "sparse_loop [] i sp = sp"
| "sparse_loop (w # ws) i sp =
     sparse_loop ws (i + 1) (if w \<noteq> 0 then sp @ [(i, round4 w)] else sp)"

definition sparsify :: "rat list \<Rightarrow> sparse" where
  "sparsify vec = sparse_loop vec 0 []"

record build_result =
  indexFile_of :: path
  written :: index
  warnings :: "string list"

text \<open>
  \<^verbatim>\<open>buildIndex(options)\<close> of \<^verbatim>\<open>scripts/index-workspace.mjs\<close>, over the directory tree
  \<open>tree\<close> found at the root. What it returns here is what it wrote: the path and the
  object given to \<^verbatim>\<open>writeFile\<close>, and the warnings. (The second copy of the script
  differs in the version number, 2, in the document text, and in having no tags.)
\<close>

definition buildIndex ::
  "platform \<Rightarrow> build_functions \<Rightarrow> build_options \<Rightarrow> dirent list option \<Rightarrow> build_result outcome" where
  "buildIndex pf tf opts tree =
     (let root_dir = resolve pf (cwd pf)
                       (if truthy_str (opt_root opts) then the (opt_root opts) else cwd pf);
          indexDir = (if truthy_str (opt_indexDir opts) then the (opt_indexDir opts)
                      else getDefaultIndexDir (path_join pf) root_dir);
          indexFile = getIndexFile (path_join pf) indexDir;
          files = collectFiles pf opts root_dir tree []
      in if length files = 0 then Exited 0 []
         else
           let st = read_files pf tf root_dir files \<lparr>docs = [], metas = [], warned = []\<rparr>
           in case vectorize_error tf (docs st) of
                Some err \<Rightarrow> Thrown err
              | None \<Rightarrow>
                  let vecs = vectorizeDocuments pf (docs st) DEFAULT_contentExcerptLength
                               (Some DEFAULT_hashDim);
                      sparseVectors = map sparsify vecs
                  in case mkdir pf indexDir of
                       Some err \<Rightarrow> Thrown (FsError err)
                     | None \<Rightarrow>
                         let idx = \<lparr>version = Some 3,
                                    created = Some (now pf),
                                    root_path = Some root_dir,
                                    hashDim = Some DEFAULT_hashDim,
                                    docCount = Some (length (docs st)),
                                    metadata = Some (metas st),
                                    vectors = Some sparseVectors\<rparr>
                         in case writeFile pf indexFile of
                              Some err \<Rightarrow> Thrown (FsError err)
                            | None \<Rightarrow>
                                Returned \<lparr>indexFile_of = indexFile, written = idx,
                                          warnings = warned st\<rparr>)"

section \<open>Notions used to state the properties\<close>

definition vectors_of :: "index \<Rightarrow> sparse list" where
  "vectors_of idx = (case vectors idx of Some vs \<Rightarrow> vs | None \<Rightarrow> [])"

definition metadata_of :: "index \<Rightarrow> doc_meta list" where
  "metadata_of idx = (case metadata idx of Some ms \<Rightarrow> ms | None \<Rightarrow> [])"

text \<open>
  The full-precision score of the document at position \<open>j\<close> of the index: the value
  of \<^verbatim>\<open>similarity\<close> in the loop, before any rounding.
\<close>

definition doc_score :: "platform \<Rightarrow> index \<Rightarrow> query_content \<Rightarrow> nat \<Rightarrow> rat" where
  "doc_score pf idx qc j =
     cosineSimilarity pf (query_vector pf idx qc)
       (expandSparseVector (vectors_of idx ! j) (hashDim idx))"

text \<open>
  Position \<open>j\<close> passes the loop: it has a metadata record, it is not a self-match of a
  file query, and its full-precision score reaches the threshold.
\<close>

definition kept :: "platform \<Rightarrow> options \<Rightarrow> index \<Rightarrow> query_content \<Rightarrow> nat \<Rightarrow> bool" where
  "kept pf opts idx qc j =
     (j < length (metadata_of idx)
      \<and> (isText opts \<or> \<not> self_match pf (workspaceRoot_of idx) qc (metadata_of idx ! j))
      \<and> threshold opts \<le> doc_score pf idx qc j)"

definition reported :: "platform \<Rightarrow> index \<Rightarrow> query_content \<Rightarrow> nat \<Rightarrow> result_entry" where
  "reported pf idx qc j = entry_of (metadata_of idx ! j) (doc_score pf idx qc j)"

text \<open>
  The ranking as the specification words it: threshold and descending sort on the
  full-precision score, ties in index order, truncation to the limit, and rounding of
  the reported value only.
\<close>

definition by_full_score :: "platform \<Rightarrow> index \<Rightarrow> query_content \<Rightarrow> nat \<Rightarrow> nat \<Rightarrow> rat" where
  "by_full_score pf idx qc a b = doc_score pf idx qc b - doc_score pf idx qc a"

definition rank_full_precision ::
  "platform \<Rightarrow> options \<Rightarrow> index \<Rightarrow> query_content \<Rightarrow> result_entry list" where
  "rank_full_precision pf opts idx qc =
     map (reported pf idx qc)
       (slice0 (Array_sort (by_full_score pf idx qc)
                  (filter (kept pf opts idx qc) [0..<length (vectors_of idx)]))
          (top_n opts))"

text \<open>The path \<open>loadIndex\<close> reads: \<^verbatim>\<open>index.json\<close> in the given or the default directory.\<close>

definition index_file_of :: "platform \<Rightarrow> path option \<Rightarrow> path" where
  "index_file_of pf d =
     getIndexFile (path_join pf)
       (if truthy_str d then the d else getDefaultIndexDir (path_join pf) (cwd pf))"



text \<open>The root, the index directory and the index file \<open>buildIndex\<close> computes.\<close>

definition build_root :: "platform \<Rightarrow> build_options \<Rightarrow> path" where
  "build_root pf opts =
     resolve pf (cwd pf) (if truthy_str (opt_root opts) then the (opt_root opts) else cwd pf)"

definition build_indexDir :: "platform \<Rightarrow> build_options \<Rightarrow> path" where
  "build_indexDir pf opts =
     (if truthy_str (opt_indexDir opts) then the (opt_indexDir opts)
      else getDefaultIndexDir (path_join pf) (build_root pf opts))"

definition build_files :: "platform \<Rightarrow> build_options \<Rightarrow> dirent list option \<Rightarrow> path list" where
  "build_files pf opts tree = collectFiles pf opts (build_root pf opts) tree []"

text \<open>
  The documents, the metadata records and the warnings of the build: a document and
  a record for each collected file whose \<^verbatim>\<open>try\<close> block ends, a warning for each
  other.
\<close>

definition build_docs ::
  "platform \<Rightarrow> build_functions \<Rightarrow> build_options \<Rightarrow> dirent list option \<Rightarrow> document list" where
  "build_docs pf tf opts tree =
     concat (map (\<lambda>p. case try_file pf tf (build_root pf opts) p of
                          Inr (doc, meta) \<Rightarrow> [doc]
                        | Inl msg \<Rightarrow> [])
               (build_files pf opts tree))"

definition build_metas ::
  "platform \<Rightarrow> build_functions \<Rightarrow> build_options \<Rightarrow> dirent list option \<Rightarrow> doc_meta list" where
  "build_metas pf tf opts tree =
     concat (map (\<lambda>p. case try_file pf tf (build_root pf opts) p of
                          Inr (doc, meta) \<Rightarrow> [meta]
                        | Inl msg \<Rightarrow> [])
               (build_files pf opts tree))"

definition build_warnings ::
  "platform \<Rightarrow> build_functions \<Rightarrow> build_options \<Rightarrow> dirent list option \<Rightarrow> string list" where
  "build_warnings pf tf opts tree =
     concat (map (\<lambda>p. case try_file pf tf (build_root pf opts) p of
                          Inr (doc, meta) \<Rightarrow> []
                        | Inl msg \<Rightarrow> [''Skipping '' @ p @ '': '' @ msg])
               (build_files pf opts tree))"

text \<open>
  The tree in which every directory that cannot be read is an empty directory.
\<close>

fun emptied :: "dirent list option \<Rightarrow> dirent list option"
and emptied_entries :: "dirent list \<Rightarrow> dirent list"
and emptied_entry :: "dirent \<Rightarrow> dirent" where
  "emptied None = Some []"
| "emptied (Some es) = Some (emptied_entries es)"
| "emptied_entries [] = []"
| "emptied_entries (e # es) = emptied_entry e # emptied_entries es"
| "emptied_entry (File n) = File n"
| "emptied_entry (Other n) = Other n"
| "emptied_entry (Directory n l) = Directory n (emptied l)"

text \<open>
  The tree without the directories the traversal skips: those whose name is in the
  excluded set or starts with a dot, at every depth.
\<close>

fun pruned :: "build_options \<Rightarrow> dirent list option \<Rightarrow> dirent list option"
and pruned_entries :: "build_options \<Rightarrow> dirent list \<Rightarrow> dirent list" where
  "pruned opts None = None"
| "pruned opts (Some es) = Some (pruned_entries opts es)"
| "pruned_entries opts [] = []"
| "pruned_entries opts (File n # es) = File n # pruned_entries opts es"
| "pruned_entries opts (Other n # es) = Other n # pruned_entries opts es"
| "pruned_entries opts (Directory n l # es) =
     (if n \<in> excludedSet opts \<or> startsWith n ''.'' then pruned_entries opts es
      else Directory n (pruned opts l) # pruned_entries opts es)"

text \<open>The names of the entries of a tree that are files, at every depth.\<close>

fun file_names :: "dirent list option \<Rightarrow> string list"
and file_names_entries :: "dirent list \<Rightarrow> string list" where
  "file_names None = []"
| "file_names (Some es) = file_names_entries es"
| "file_names_entries [] = []"
| "file_names_entries (File n # es) = n # file_names_entries es"
| "file_names_entries (Other n # es) = file_names_entries es"
| "file_names_entries (Directory n l # es) = file_names l @ file_names_entries es"

text \<open>
  The paths the traversal adds for a listing, without the shared array: the allowed
  files of the directory and of the directories below it that are entered, in the
  order of the entries.
\<close>

fun found :: "platform \<Rightarrow> build_options \<Rightarrow> path \<Rightarrow> dirent list option \<Rightarrow> path list"
and found_entries :: "platform \<Rightarrow> build_options \<Rightarrow> path \<Rightarrow> dirent list \<Rightarrow> path list" where
  "found pf opts dir None = []"
| "found pf opts dir (Some entries) = found_entries pf opts dir entries"
| "found_entries pf opts dir [] = []"
| "found_entries pf opts dir (File n # rest) =
     (if toLowerCase pf (extname pf n) \<in> allowedSet opts then [path_join pf dir n] else [])
     @ found_entries pf opts dir rest"
| "found_entries pf opts dir (Other n # rest) = found_entries pf opts dir rest"
| "found_entries pf opts dir (Directory n listing # rest) =
     (if n \<notin> excludedSet opts \<and> \<not> startsWith n ''.''
      then found pf opts (path_join pf dir n) listing else [])
     @ found_entries pf opts dir rest"

section \<open>A small workspace\<close>

text \<open>
  A concrete platform over a workspace \<^verbatim>\<open>/w\<close> with the files \<^verbatim>\<open>a.md\<close> and \<^verbatim>\<open>b.md\<close>,
  whose index file parses to \<open>idx\<close>. Every document vectorizes to the first unit
  vector of the requested dimension, and the similarity is the dot product, which
  is the cosine for the unit vectors used below.
\<close>

fun dot :: "rat list \<Rightarrow> dense \<Rightarrow> rat" where
  "dot (q # qs) (Some w # ws) = q * w + dot qs ws"
| "dot (q # qs) (None # ws) = dot qs ws"
| "dot _ _ = 0"

definition demo_extname :: "string \<Rightarrow> string" where
  "demo_extname n =
     (if CHR ''.'' \<in> set n then CHR ''.'' # rev (takeWhile (\<lambda>c. c \<noteq> CHR ''.'') (rev n)) else [])"

definition demo_lower :: "string \<Rightarrow> string" where
  "demo_lower s =
     map (\<lambda>c. if (65::nat) \<le> of_char c \<and> of_char c \<le> (90::nat)
              then char_of (of_char c + (32::nat)) else c) s"

definition demo_platform :: "index \<Rightarrow> platform" where
  "demo_platform idx =
     \<lparr>readFile = (\<lambda>p. if p = ''/w/.similar-files/index.json'' then Inr ''{...}''
                     else if p = ''/w/a.md'' then Inr ''cat dog cat''
                     else if p = ''/w/b.md'' then Inr ''dog bird''
                     else Inl (FsErr ''ENOENT'' ''no such file or directory'')),
      JSON_parse = (\<lambda>s. Some (JObject idx)),
      cwd = ''/w'',
      path_join = (\<lambda>d n. d @ ''/'' @ n),
      isAbsolute = (\<lambda>p. startsWith p ''/''),
      resolve = (\<lambda>b p. if startsWith p ''/'' then p else b @ ''/'' @ p),
      relative = (\<lambda>r p. drop (length r + 1) p),
      stripFrontmatter = (\<lambda>s. s),
      vectorizeDocuments =
        (\<lambda>ds n h. map (\<lambda>d. 1 # replicate (case h of Some k \<Rightarrow> k - 1 | None \<Rightarrow> 0) 0) ds),
      cosineSimilarity = (\<lambda>q d. case q of None \<Rightarrow> 0 | Some v \<Rightarrow> dot v d),
      extname = demo_extname,
      toLowerCase = demo_lower,
      fingerprintText = (\<lambda>s. s),
      mkdir = (\<lambda>p. None),
      writeFile = (\<lambda>p. None),
      now = ''2026-01-01T00:00:00.000Z''\<rparr>"

text \<open>
  An index of the two files with the vectors \<open>va\<close> and \<open>vb\<close>, of dimension 4. The
  vectors used are unit vectors with weights of 4 decimals: the first unit vector, and
  three whose first weights, their scores against every query, are 0.6, 0.1104 and
  0.1136.
\<close>

definition demo_meta :: "string \<Rightarrow> doc_meta" where
  "demo_meta p = \<lparr>m_id = p, m_path = p, m_title = takeWhile (\<lambda>c. c \<noteq> CHR ''.'') p,
                  m_fingerprint = ''f'', m_ext = ''.md'', m_tags = []\<rparr>"

definition demo_index :: "sparse \<Rightarrow> sparse \<Rightarrow> index" where
  "demo_index va vb =
     \<lparr>version = Some 3, created = Some ''2026-01-01T00:00:00.000Z'', root_path = Some ''/w'',
      hashDim = Some 4, docCount = Some 2,
      metadata = Some [demo_meta ''a.md'', demo_meta ''b.md''],
      vectors = Some [va, vb]\<rparr>"

definition unit_06 :: sparse where
  "unit_06 = [(0, 6 / 10), (1, 8 / 10)]"

definition unit_1104 :: sparse where
  "unit_1104 = [(0, 1104 / 10000), (1, 96 / 10000), (2, 2688 / 10000), (3, 9568 / 10000)]"

definition unit_1136 :: sparse where
  "unit_1136 = [(0, 1136 / 10000), (1, 64 / 10000), (2, 4672 / 10000), (3, 8768 / 10000)]"

definition demo_plain_index :: index where
  "demo_plain_index = demo_index [(0, 1)] unit_06"

definition demo_close_index :: index where
  "demo_close_index = demo_index unit_1104 unit_1136"

definition demo_options :: "string \<Rightarrow> bool \<Rightarrow> int \<Rightarrow> rat \<Rightarrow> options" where
  "demo_options q is_text n t =
     \<lparr>query = q, isText = is_text, top_n = n, threshold = t, indexDir = None,
      json = False, help_flag = False\<rparr>"

definition demo_query :: "bool \<Rightarrow> query_content" where
  "demo_query is_text =
     (if is_text then \<lparr>content = ''cat'', title = ''Query'', absolutePath = None\<rparr>
      else \<lparr>content = ''cat dog cat'', title = ''a.md'', absolutePath = Some ''/w/a.md''\<rparr>)"

text \<open>The result object for one of the two files, with reported score \<open>s\<close>.\<close>

definition demo_result :: "string \<Rightarrow> rat \<Rightarrow> result_entry" where
  "demo_result p s =
     \<lparr>r_path = p, r_title = takeWhile (\<lambda>c. c \<noteq> CHR ''.'') p, similarity = s, r_ext = ''.md''\<rparr>"

definition demo_found :: "string \<Rightarrow> result_entry list \<Rightarrow> find_result" where
  "demo_found q rs = \<lparr>results = rs, fr_query = q, fr_workspaceRoot = Some ''/w''\<rparr>"

text \<open>
  An index file whose metadata sequence has one record for two vectors and a
  \<^verbatim>\<open>docCount\<close> of 2; one without the vectors; and a platform without an index file.
\<close>

definition demo_mismatched :: index where
  "demo_mismatched = demo_plain_index\<lparr>metadata := Some [demo_meta ''a.md'']\<rparr>"

definition demo_no_vectors :: index where
  "demo_no_vectors = demo_plain_index\<lparr>vectors := None\<rparr>"

definition demo_no_index :: platform where
  "demo_no_index =
     (demo_platform demo_plain_index)
       \<lparr>readFile := (\<lambda>p. Inl (FsErr ''ENOENT'' ''no such file or directory''))\<rparr>"


text \<open>
  The tree of the small workspace: an index directory left by an earlier build, an
  excluded directory, a directory that cannot be read, and a file \<^verbatim>\<open>docs/b.MD\<close> that
  cannot be read.
\<close>

definition demo_tree :: "dirent list option" where
  "demo_tree =
     Some [File ''a.md'',
           File ''notes.txt'',
           Directory ''.similar-files'' (Some [File ''index.json'', File ''old.md'']),
           Directory ''node_modules'' (Some [File ''x.js'']),
           Directory ''locked'' None,
           Directory ''docs'' (Some [File ''b.MD'', Other ''link'', Directory ''deep'' None])]"

text \<open>
  A text whose frontmatter has the key \<^verbatim>\<open>constructor\<close> followed by a list item; the
  functions of the small workspace: enriching throws on that text, as
  \<^verbatim>\<open>parseFrontmatter\<close> does, and the library calls return.
\<close>

definition demo_bad_frontmatter :: string where
  "demo_bad_frontmatter =
     ''---'' @ [CHR 0x0A] @ ''constructor:'' @ [CHR 0x0A] @ '' - x'' @ [CHR 0x0A]
     @ ''---'' @ [CHR 0x0A] @ ''text''"

definition demo_text :: build_functions where
  "demo_text =
     \<lparr>buildEnrichedContent =
        (\<lambda>c f. if c = demo_bad_frontmatter
                then Inl ''frontmatter[currentKey].push is not a function''
                else Inr (c, None, c)),
      extractTitle = (\<lambda>b f fm. takeWhile (\<lambda>c. c \<noteq> CHR ''.'') (drop 3 f)),
      fingerprint_error = (\<lambda>c. None),
      vectorize_error = (\<lambda>ds. None)\<rparr>"

text \<open>
  A second workspace for the build: \<^verbatim>\<open>a.md\<close> can be read, \<^verbatim>\<open>c.md\<close> can be read and
  has that frontmatter, \<^verbatim>\<open>docs/b.MD\<close> cannot be read.
\<close>

definition demo_build_platform :: platform where
  "demo_build_platform =
     (demo_platform demo_plain_index)
       \<lparr>readFile := (\<lambda>p. if p = ''/w/c.md'' then Inr demo_bad_frontmatter
                        else readFile (demo_platform demo_plain_index) p)\<rparr>"

definition demo_build_tree :: "dirent list option" where
  "demo_build_tree =
     Some [File ''a.md'', File ''c.md'', Directory ''docs'' (Some [File ''b.MD''])]"

definition demo_build_options :: build_options where
  "demo_build_options =
     \<lparr>opt_root = None, opt_indexDir = None, excludedDirs = None, allowedExtensions = None\<rparr>"

text \<open>What the build of the small workspace writes.\<close>

definition demo_built :: build_result where
  "demo_built =
     \<lparr>indexFile_of = ''/w/.similar-files/index.json'',
      written =
        \<lparr>version = Some 3, created = Some ''2026-01-01T00:00:00.000Z'',
         root_path = Some ''/w'', hashDim = Some 2048, docCount = Some 1,
         metadata = Some [(demo_meta ''a.md'')\<lparr>m_fingerprint := ''cat dog cat''\<rparr>],
         vectors = Some [[(0, 1)]]\<rparr>,
      warnings = [''Skipping /w/docs/b.MD: no such file or directory'']\<rparr>"

text \<open>The entries of the small workspace before and after its index directory.\<close>

definition demo_before :: "dirent list" where
  "demo_before = [File ''a.md'', File ''notes.txt'']"

definition demo_after :: "dirent list" where
  "demo_after =
     [Directory ''node_modules'' (Some [File ''x.js'']),
      Directory ''locked'' None,
      Directory ''docs'' (Some [File ''b.MD'', Other ''link'', Directory ''deep'' None])]"

section \<open>The ranking loop of find-similar\<close>

lemma body_Inr:
  assumes "findSimilar_body pf opts (vectors_of idx) (metadata_of idx) (hashDim idx)
             (workspaceRoot_of idx) qc (query_vector pf idx qc) i rs = Inr rs'"
  shows "rs' = rs @ map (reported pf idx qc) (filter (kept pf opts idx qc) [i])"
  using assms
  by (auto simp: findSimilar_body_def Let_def metadata_at_def kept_def doc_score_def reported_def
           split: if_splits sum.splits)

lemma loop_Inr:
  "findSimilar_loop pf opts (vectors_of idx) (metadata_of idx) (hashDim idx)
      (workspaceRoot_of idx) qc (query_vector pf idx qc) i rs = Inr out
   \<Longrightarrow> out = rs @ map (reported pf idx qc)
                      (filter (kept pf opts idx qc) [i..<length (vectors_of idx)])"
proof (induction "length (vectors_of idx) - i" arbitrary: i rs)
  case 0
  then show ?case by (subst (asm) findSimilar_loop.simps) simp
next
  case (Suc n)
  then have lt: "i < length (vectors_of idx)" by simp
  from Suc.prems lt obtain mid where
    b: "findSimilar_body pf opts (vectors_of idx) (metadata_of idx) (hashDim idx)
          (workspaceRoot_of idx) qc (query_vector pf idx qc) i rs = Inr mid"
    and l: "findSimilar_loop pf opts (vectors_of idx) (metadata_of idx) (hashDim idx)
          (workspaceRoot_of idx) qc (query_vector pf idx qc) (i + 1) mid = Inr out"
    by (subst (asm) findSimilar_loop.simps) (auto split: sum.splits)
  have n: "n = length (vectors_of idx) - (i + 1)" using Suc.hyps(2) by simp
  have up: "[i..<length (vectors_of idx)] = i # [i + 1..<length (vectors_of idx)]"
    using lt by (simp add: upt_conv_Cons)
  show ?case
    using Suc.hyps(1)[OF n l] body_Inr[OF b] by (simp add: up)
qed

text \<open>The comparator sort is the stable sort on the negated reported score.\<close>

lemma sort_insert_key:
  "sort_insert by_similarity x ys = insort_key (\<lambda>e. - similarity e) x ys"
  by (induction ys) (auto simp: by_similarity_def)

lemma Array_sort_key:
  "Array_sort by_similarity xs = sort_key (\<lambda>e. - similarity e) xs"
  by (induction xs) (auto simp: sort_insert_key)

lemma insort_key_map:
  "insort_key f (g x) (map g ys) = map g (insort_key (\<lambda>y. f (g y)) x ys)"
  by (induction ys) auto

lemma sort_key_map:
  "sort_key f (map g xs) = map g (sort_key (\<lambda>y. f (g y)) xs)"
  by (induction xs) (auto simp: insort_key_map)

lemma descending_sort:
  "sorted_wrt (\<lambda>a b. similarity b \<le> similarity a) (Array_sort by_similarity xs)"
proof -
  have "sorted (map (\<lambda>e. - similarity e) (sort_key (\<lambda>e. - similarity e) xs))"
    by (rule sorted_sort_key)
  then show ?thesis
    by (simp add: Array_sort_key sorted_map sorted_wrt_iff_nth_less)
qed

lemma set_Array_sort: "set (Array_sort by_similarity xs) = set xs"
  by (simp add: Array_sort_key)

lemma slice0_subset: "set (slice0 xs n) \<subseteq> set xs"
  by (simp add: slice0_def Let_def set_take_subset)

lemma slice0_length: "0 \<le> n \<Longrightarrow> int (length (slice0 xs n)) \<le> n"
  by (simp add: slice0_def Let_def)

lemma slice0_sorted: "sorted_wrt P xs \<Longrightarrow> sorted_wrt P (slice0 xs n)"
  by (simp add: slice0_def Let_def sorted_wrt_take)

lemma slice0_map: "slice0 (map g xs) n = map g (slice0 xs n)"
  by (simp add: slice0_def Let_def take_map)

lemma round2_mono: "s \<le> t \<Longrightarrow> round2 s \<le> round2 t"
  by (simp add: round2_def Math_round_def divide_right_mono floor_mono)

lemma loadIndex_Returned:
  assumes "loadIndex pf d = Returned (idx, f)"
  shows "vectors idx = Some (vectors_of idx) \<and> metadata idx = Some (metadata_of idx)
         \<and> truthy_num (version idx)"
  using assms
  by (auto simp: loadIndex_def loadIndex_catch_def Let_def truthy_obj_def vectors_of_def
        metadata_of_def split: sum.splits option.splits json.splits if_splits)

text \<open>What a returning call of \<open>findSimilar\<close> returns, in closed form.\<close>

lemma findSimilar_results:
  assumes ld: "loadIndex pf (indexDir opts) = Returned (idx, f)"
    and qcr: "getQueryContent pf (query opts) (isText opts) (workspaceRoot_of idx) = Returned qc"
    and ret: "findSimilar pf opts = Returned fr"
  shows "results fr =
           slice0 (Array_sort by_similarity
                     (map (reported pf idx qc)
                        (filter (kept pf opts idx qc) [0..<length (vectors_of idx)])))
             (top_n opts)"
proof -
  note li = loadIndex_Returned[OF ld]
  from ret obtain rs where
    l: "findSimilar_loop pf opts (vectors_of idx) (metadata_of idx) (hashDim idx)
          (workspaceRoot_of idx) qc (query_vector pf idx qc) 0 [] = Inr rs"
    and r: "results fr = slice0 (Array_sort by_similarity rs) (top_n opts)"
    using li by (auto simp: findSimilar_def ld qcr Let_def split: sum.splits)
  show ?thesis using loop_Inr[OF l] r by simp
qed

lemma results_from:
  assumes "e \<in> set (slice0 (Array_sort by_similarity
                     (map (reported pf idx qc)
                        (filter (kept pf opts idx qc) [0..<n]))) t)"
  shows "\<exists>j<n. kept pf opts idx qc j \<and> e = reported pf idx qc j"
proof -
  from assms have "e \<in> set (Array_sort by_similarity
                     (map (reported pf idx qc)
                        (filter (kept pf opts idx qc) [0..<n])))"
    by (rule subsetD[OF slice0_subset])
  then have "e \<in> set (map (reported pf idx qc) (filter (kept pf opts idx qc) [0..<n]))"
    by (simp only: set_Array_sort)
  then show ?thesis by auto
qed

lemma self_match_path:
  "m_path m = m_path m' \<Longrightarrow> self_match pf r qc m = self_match pf r qc m'"
  by (simp add: self_match_def)

text \<open>The vectors of the small workspace are unit vectors.\<close>

lemma demo_vectors_unit:
  "sum_list (map (\<lambda>(k, w). w * w) unit_06) = 1
   \<and> sum_list (map (\<lambda>(k, w). w * w) unit_1104) = 1
   \<and> sum_list (map (\<lambda>(k, w). w * w) unit_1136) = 1"
  by code_simp

section \<open>Threshold, limit and order of the results\<close>

text \<open>
  C1. The claim is that the returned list holds only entries whose score is at least
  the threshold \<open>t\<close>, has at most \<open>n\<close> entries, and is in descending order of score.
  What holds: when \<open>findSimilar\<close> returns and the limit is not negative, the list
  has at most \<open>n\<close> entries, it is in descending order of the reported (rounded)
  score, and every entry is the report of an indexed document whose full-precision
  score is at least \<open>t\<close>; the reported score is that score rounded to two decimals,
  so it is at least \<open>t\<close> rounded to two decimals (and may be below \<open>t\<close> itself).
\<close>

theorem findSimilar_threshold_topN:
  assumes ld: "loadIndex pf (indexDir opts) = Returned (idx, f)"
    and qcr: "getQueryContent pf (query opts) (isText opts) (workspaceRoot_of idx) = Returned qc"
    and ret: "findSimilar pf opts = Returned fr"
    and n: "0 \<le> top_n opts"
  shows "int (length (results fr)) \<le> top_n opts
         \<and> sorted_wrt (\<lambda>a b. similarity b \<le> similarity a) (results fr)
         \<and> (\<forall>e \<in> set (results fr).
               \<exists>j < length (vectors_of idx).
                  e = reported pf idx qc j
                  \<and> threshold opts \<le> doc_score pf idx qc j
                  \<and> similarity e = round2 (doc_score pf idx qc j)
                  \<and> round2 (threshold opts) \<le> similarity e)"
proof (intro conjI ballI)
  note r = findSimilar_results[OF ld qcr ret]
  show "int (length (results fr)) \<le> top_n opts"
    unfolding r by (rule slice0_length[OF n])
  show "sorted_wrt (\<lambda>a b. similarity b \<le> similarity a) (results fr)"
    unfolding r by (rule slice0_sorted[OF descending_sort])
  fix e assume "e \<in> set (results fr)"
  then obtain j where j: "j < length (vectors_of idx)" "kept pf opts idx qc j"
      "e = reported pf idx qc j"
    unfolding r using results_from by blast
  from j(2) have t: "threshold opts \<le> doc_score pf idx qc j" by (simp add: kept_def)
  have s: "similarity e = round2 (doc_score pf idx qc j)"
    by (simp add: j(3) reported_def entry_of_def)
  have "round2 (threshold opts) \<le> similarity e"
    unfolding s by (rule round2_mono[OF t])
  with j(1,3) t s
  show "\<exists>j < length (vectors_of idx).
                  e = reported pf idx qc j
                  \<and> threshold opts \<le> doc_score pf idx qc j
                  \<and> similarity e = round2 (doc_score pf idx qc j)
                  \<and> round2 (threshold opts) \<le> similarity e"
    by blast
qed

text \<open>
  The theorem at a text query over the two-file index with scores 0.1104 and 0.1136,
  threshold 0.1 and limit 10: both files are reported with 0.11.
\<close>

theorem findSimilar_threshold_topN_witness:
  "loadIndex (demo_platform demo_close_index)
       (indexDir (demo_options ''cat'' True 10 (1 / 10)))
     = Returned (demo_close_index, ''/w/.similar-files/index.json'')
   \<and> findSimilar (demo_platform demo_close_index)
         (demo_options ''cat'' True 10 (1 / 10))
       = Returned (demo_found ''cat''
                     [demo_result ''a.md'' (11 / 100), demo_result ''b.md'' (11 / 100)])
   \<and> 0 \<le> top_n (demo_options ''cat'' True 10 (1 / 10))
   \<and> int (length [demo_result ''a.md'' (11 / 100), demo_result ''b.md'' (11 / 100)])
        \<le> top_n (demo_options ''cat'' True 10 (1 / 10))
   \<and> sorted_wrt (\<lambda>a b. similarity b \<le> similarity a)
        [demo_result ''a.md'' (11 / 100), demo_result ''b.md'' (11 / 100)]"
proof -
  let ?I = "demo_close_index"
  let ?P = "demo_platform ?I"
  let ?O = "demo_options ''cat'' True 10 (1 / 10)"
  let ?R = "demo_found ''cat'' [demo_result ''a.md'' (11 / 100), demo_result ''b.md'' (11 / 100)]"
  have ld: "loadIndex ?P (indexDir ?O) = Returned (?I, ''/w/.similar-files/index.json'')"
    by code_simp
  have qcr: "getQueryContent ?P (query ?O) (isText ?O) (workspaceRoot_of ?I)
               = Returned (demo_query True)"
    by code_simp
  have ret: "findSimilar ?P ?O = Returned ?R"
    by code_simp
  have n: "0 \<le> top_n ?O" by code_simp
  have res: "results ?R = [demo_result ''a.md'' (11 / 100), demo_result ''b.md'' (11 / 100)]"
    by (simp add: demo_found_def)
  from findSimilar_threshold_topN[OF ld qcr ret n] ld ret n show ?thesis
    unfolding res by blast
qed

text \<open>
  Against the claim as stated: with threshold 0.1101 and scores 0.1104 and 0.1136,
  both files are reported with 0.11, below the threshold, and the file with the lower
  full-precision score comes first; so neither the reported nor the full-precision
  score satisfies both the threshold and the order. With the limit \<open>-1\<close>
  (\<^verbatim>\<open>--top -1\<close>) the list has one entry.
\<close>

theorem findSimilar_threshold_topN_counterexample:
  "findSimilar (demo_platform demo_close_index)
       (demo_options ''cat'' True 10 (1101 / 10000))
     = Returned (demo_found ''cat''
                   [demo_result ''a.md'' (11 / 100), demo_result ''b.md'' (11 / 100)])
   \<and> similarity (demo_result ''a.md'' (11 / 100)) < threshold (demo_options ''cat'' True 10 (1101 / 10000))
   \<and> doc_score (demo_platform demo_close_index)
         demo_close_index (demo_query True) 0
       < doc_score (demo_platform demo_close_index)
           demo_close_index (demo_query True) 1
   \<and> findSimilar (demo_platform demo_close_index)
         (demo_options ''cat'' True (- 1) (1101 / 10000))
       = Returned (demo_found ''cat'' [demo_result ''a.md'' (11 / 100)])
   \<and> top_n (demo_options ''cat'' True (- 1) (1101 / 10000))
       < int (length [demo_result ''a.md'' (11 / 100)])"
  by code_simp

section \<open>Which value is compared and which is sorted\<close>

text \<open>
  C2. The claim is that the threshold comparison and the descending sort both use the
  full-precision similarity, and that rounding touches only the reported value. What
  holds: the threshold comparison uses the full-precision similarity, and the sort
  uses the reported value, rounded to two decimals, with ties left in index order.
  The result list is the report of these positions: those that pass the loop (\<open>kept\<close>
  compares the full-precision score with the threshold), sorted stably by descending
  rounded score, cut at the limit.
\<close>

theorem findSimilar_sorts_rounded:
  assumes ld: "loadIndex pf (indexDir opts) = Returned (idx, f)"
    and qcr: "getQueryContent pf (query opts) (isText opts) (workspaceRoot_of idx) = Returned qc"
    and ret: "findSimilar pf opts = Returned fr"
  shows "results fr =
           map (reported pf idx qc)
             (slice0 (sort_key (\<lambda>j. - round2 (doc_score pf idx qc j))
                        (filter (kept pf opts idx qc) [0..<length (vectors_of idx)]))
                (top_n opts))"
proof -
  have k: "(\<lambda>j. - similarity (reported pf idx qc j)) = (\<lambda>j. - round2 (doc_score pf idx qc j))"
    by (simp add: reported_def entry_of_def)
  show ?thesis
    unfolding findSimilar_results[OF ld qcr ret] Array_sort_key sort_key_map slice0_map k ..
qed

text \<open>
  The theorem at a text query with scores 0.1104 and 0.1136, threshold 0.1, limit 1:
  the two rounded scores are equal, so the first file of the index is the one
  returned.
\<close>

theorem findSimilar_sorts_rounded_witness:
  "loadIndex (demo_platform demo_close_index)
       (indexDir (demo_options ''cat'' True 1 (1 / 10)))
     = Returned (demo_close_index, ''/w/.similar-files/index.json'')
   \<and> findSimilar (demo_platform demo_close_index)
         (demo_options ''cat'' True 1 (1 / 10))
       = Returned (demo_found ''cat'' [demo_result ''a.md'' (11 / 100)])
   \<and> [demo_result ''a.md'' (11 / 100)]
       = map (reported (demo_platform demo_close_index)
                demo_close_index (demo_query True))
           (slice0 (sort_key (\<lambda>j. - round2 (doc_score
                                (demo_platform demo_close_index)
                                demo_close_index (demo_query True) j))
                      (filter (kept (demo_platform demo_close_index)
                                 (demo_options ''cat'' True 1 (1 / 10))
                                 demo_close_index (demo_query True))
                         [0..<length (vectors_of demo_close_index)]))
              (top_n (demo_options ''cat'' True 1 (1 / 10))))"
proof -
  let ?I = "demo_close_index"
  let ?P = "demo_platform ?I"
  let ?O = "demo_options ''cat'' True 1 (1 / 10)"
  let ?R = "demo_found ''cat'' [demo_result ''a.md'' (11 / 100)]"
  have ld: "loadIndex ?P (indexDir ?O) = Returned (?I, ''/w/.similar-files/index.json'')"
    by code_simp
  have qcr: "getQueryContent ?P (query ?O) (isText ?O) (workspaceRoot_of ?I)
               = Returned (demo_query True)"
    by code_simp
  have ret: "findSimilar ?P ?O = Returned ?R"
    by code_simp
  have res: "results ?R = [demo_result ''a.md'' (11 / 100)]"
    by (simp add: demo_found_def)
  from findSimilar_sorts_rounded[OF ld qcr ret] ld ret show ?thesis
    unfolding res by blast
qed

text \<open>
  Against the claim as stated: on that input the ranking on full precision returns
  the second file (0.1136 is above 0.1104), and \<open>findSimilar\<close> returns the first.
\<close>

theorem findSimilar_sorts_rounded_counterexample:
  "findSimilar (demo_platform demo_close_index)
       (demo_options ''cat'' True 1 (1 / 10))
     = Returned (demo_found ''cat'' [demo_result ''a.md'' (11 / 100)])
   \<and> rank_full_precision (demo_platform demo_close_index)
         (demo_options ''cat'' True 1 (1 / 10)) demo_close_index
         (demo_query True)
       = [demo_result ''b.md'' (11 / 100)]
   \<and> demo_result ''a.md'' (11 / 100) \<noteq> demo_result ''b.md'' (11 / 100)"
  by code_simp

section \<open>Self-exclusion\<close>

text \<open>
  C3. For a query that comes from a file, an indexed document that is the query's
  own file, by equal resolved absolute path or by a metadata path equal to the
  query's relative path (the two tests of \<open>self_match\<close>), is skipped before the
  threshold test: no returned entry has its path.
\<close>

theorem findSimilar_excludes_self:
  assumes ld: "loadIndex pf (indexDir opts) = Returned (idx, f)"
    and qcr: "getQueryContent pf (query opts) (isText opts) (workspaceRoot_of idx) = Returned qc"
    and ret: "findSimilar pf opts = Returned fr"
    and fq: "\<not> isText opts"
    and j: "j < length (metadata_of idx)"
    and self: "self_match pf (workspaceRoot_of idx) qc (metadata_of idx ! j)"
  shows "\<forall>e \<in> set (results fr). r_path e \<noteq> m_path (metadata_of idx ! j)"
proof
  fix e assume e: "e \<in> set (results fr)"
  note r = findSimilar_results[OF ld qcr ret]
  from e obtain k where k: "kept pf opts idx qc k" "e = reported pf idx qc k"
    unfolding r using results_from by blast
  from k(1) fq have ns: "\<not> self_match pf (workspaceRoot_of idx) qc (metadata_of idx ! k)"
    by (simp add: kept_def)
  have p: "r_path e = m_path (metadata_of idx ! k)"
    by (simp add: k(2) reported_def entry_of_def)
  show "r_path e \<noteq> m_path (metadata_of idx ! j)"
  proof
    assume "r_path e = m_path (metadata_of idx ! j)"
    then have "m_path (metadata_of idx ! k) = m_path (metadata_of idx ! j)" using p by simp
    from self_match_path[OF this] ns self show False by simp
  qed
qed

text \<open>
  The theorem at the query by the file \<^verbatim>\<open>a.md\<close>, which is the first document of
  the index and has the higher score: only \<^verbatim>\<open>b.md\<close> is returned.
\<close>

theorem findSimilar_excludes_self_witness:
  "findSimilar (demo_platform demo_plain_index) (demo_options ''a.md'' False 10 (1 / 10))
     = Returned (demo_found ''a.md'' [demo_result ''b.md'' (6 / 10)])
   \<and> \<not> isText (demo_options ''a.md'' False 10 (1 / 10))
   \<and> (0::nat) < length (metadata_of demo_plain_index)
   \<and> self_match (demo_platform demo_plain_index) (workspaceRoot_of demo_plain_index)
        (demo_query False) (metadata_of demo_plain_index ! 0)
   \<and> m_path (metadata_of demo_plain_index ! 0) = ''a.md''
   \<and> r_path (demo_result ''b.md'' (6 / 10)) \<noteq> m_path (metadata_of demo_plain_index ! 0)"
proof -
  let ?I = "demo_plain_index"
  let ?P = "demo_platform ?I"
  let ?O = "demo_options ''a.md'' False 10 (1 / 10)"
  let ?R = "demo_found ''a.md'' [demo_result ''b.md'' (6 / 10)]"
  have ld: "loadIndex ?P (indexDir ?O) = Returned (?I, ''/w/.similar-files/index.json'')"
    by code_simp
  have qcr: "getQueryContent ?P (query ?O) (isText ?O) (workspaceRoot_of ?I)
               = Returned (demo_query False)"
    by code_simp
  have ret: "findSimilar ?P ?O = Returned ?R"
    by code_simp
  have fq: "\<not> isText ?O" by code_simp
  have j: "(0::nat) < length (metadata_of ?I)" by code_simp
  have self: "self_match ?P (workspaceRoot_of ?I) (demo_query False) (metadata_of ?I ! 0)"
    by code_simp
  have p: "m_path (metadata_of ?I ! 0) = ''a.md''" by code_simp
  have res: "results ?R = [demo_result ''b.md'' (6 / 10)]"
    by (simp add: demo_found_def)
  from findSimilar_excludes_self[OF ld qcr ret fq j self]
  have "r_path (demo_result ''b.md'' (6 / 10)) \<noteq> m_path (metadata_of ?I ! 0)"
    unfolding res by simp
  with ret fq j self p show ?thesis by blast
qed

section \<open>Loading the index\<close>

text \<open>
  C4. The claim is that loading fails with NotFound when the index file is absent
  and with Corrupt whenever the structural invariants fail, a mismatch between the
  lengths of the metadata and vectors sequences included. What holds: when reading
  the file fails with ENOENT, \<open>loadIndex\<close> prints where the index was expected and
  how to build one, and exits with status 1; when the parsed object has no truthy
  \<^verbatim>\<open>version\<close>, no \<^verbatim>\<open>vectors\<close> or no \<^verbatim>\<open>metadata\<close>, it throws "Invalid index format";
  every other parsed object is returned as it is, whatever the lengths of its two
  sequences and its \<^verbatim>\<open>docCount\<close>. (Other read errors, a syntax error and
  \<^verbatim>\<open>null\<close> are thrown on.)
\<close>

theorem loadIndex_conditions:
  "(\<forall>e. readFile pf (index_file_of pf d) = Inl e \<longrightarrow>
        loadIndex pf d =
          (if err_code e = ''ENOENT''
           then Exited 1 [''Index not found at: '' @ index_file_of pf d, [],
                          ''To create an index, run:'',
                          ''  similar-index --root /path/to/workspace'']
           else Thrown (FsError e)))
   \<and> (\<forall>data. readFile pf (index_file_of pf d) = Inr data \<longrightarrow>
        (JSON_parse pf data = None \<longrightarrow> loadIndex pf d = Thrown SyntaxError)
        \<and> (JSON_parse pf data = Some JNull \<longrightarrow> loadIndex pf d = Thrown TypeError)
        \<and> (\<forall>idx. JSON_parse pf data = Some (JObject idx) \<longrightarrow>
              loadIndex pf d =
                (if truthy_num (version idx) \<and> vectors idx \<noteq> None \<and> metadata idx \<noteq> None
                 then Returned (idx, index_file_of pf d)
                 else Thrown (Error ''Invalid index format''))))"
  by (auto simp: loadIndex_def loadIndex_catch_def index_file_of_def Let_def truthy_obj_def
           split: option.splits)

text \<open>
  The theorem at three index locations: one without a file, one whose file has no
  \<^verbatim>\<open>vectors\<close>, one whose file is a well-formed index.
\<close>

theorem loadIndex_conditions_witness:
  "loadIndex demo_no_index None
     = Exited 1 [''Index not found at: /w/.similar-files/index.json'', [],
                 ''To create an index, run:'',
                 ''  similar-index --root /path/to/workspace'']
   \<and> loadIndex (demo_platform demo_no_vectors) None = Thrown (Error ''Invalid index format'')
   \<and> loadIndex (demo_platform demo_plain_index) None
       = Returned (demo_plain_index, ''/w/.similar-files/index.json'')"
proof -
  have f: "index_file_of demo_no_index None = ''/w/.similar-files/index.json''"
    "index_file_of (demo_platform demo_no_vectors) None = ''/w/.similar-files/index.json''"
    "index_file_of (demo_platform demo_plain_index) None = ''/w/.similar-files/index.json''"
    by code_simp+
  have r1: "readFile demo_no_index (index_file_of demo_no_index None)
              = Inl (FsErr ''ENOENT'' ''no such file or directory'')"
    by code_simp
  have r2: "readFile (demo_platform demo_no_vectors)
              (index_file_of (demo_platform demo_no_vectors) None) = Inr ''{...}''"
    by code_simp
  have p2: "JSON_parse (demo_platform demo_no_vectors) ''{...}'' = Some (JObject demo_no_vectors)"
    by code_simp
  have v2: "vectors demo_no_vectors = None" by code_simp
  have r3: "readFile (demo_platform demo_plain_index)
              (index_file_of (demo_platform demo_plain_index) None) = Inr ''{...}''"
    by code_simp
  have p3: "JSON_parse (demo_platform demo_plain_index) ''{...}'' = Some (JObject demo_plain_index)"
    by code_simp
  have v3: "truthy_num (version demo_plain_index)" "vectors demo_plain_index \<noteq> None"
    "metadata demo_plain_index \<noteq> None"
    by code_simp+
  from loadIndex_conditions[of demo_no_index None] r1
  have a: "loadIndex demo_no_index None
     = Exited 1 [''Index not found at: '' @ index_file_of demo_no_index None, [],
                 ''To create an index, run:'',
                 ''  similar-index --root /path/to/workspace'']"
    by simp
  from loadIndex_conditions[of "demo_platform demo_no_vectors" None] r2 p2 v2
  have b: "loadIndex (demo_platform demo_no_vectors) None = Thrown (Error ''Invalid index format'')"
    by simp
  from loadIndex_conditions[of "demo_platform demo_plain_index" None] r3 p3 v3
  have c: "loadIndex (demo_platform demo_plain_index) None
       = Returned (demo_plain_index, index_file_of (demo_platform demo_plain_index) None)"
    by simp
  from a b c show ?thesis unfolding f by simp
qed

text \<open>
  Against the claim as stated: an index file with one metadata record, two vectors
  and a \<^verbatim>\<open>docCount\<close> of 2 is loaded without an error.
\<close>

theorem loadIndex_conditions_counterexample:
  "loadIndex (demo_platform demo_mismatched) None
     = Returned (demo_mismatched, ''/w/.similar-files/index.json'')
   \<and> length (metadata_of demo_mismatched) = 1
   \<and> length (vectors_of demo_mismatched) = 2
   \<and> docCount demo_mismatched = Some 2"
  by code_simp

section \<open>Sparse vectors\<close>




lemma sparse_loop_acc: "sparse_loop ws i sp = sp @ sparse_loop ws i []"
proof (induction ws arbitrary: i sp)
  case Nil
  then show ?case by simp
next
  case (Cons w ws)
  show ?case
    using Cons.IH[of "i + 1" "sp @ [(i, round4 w)]"] Cons.IH[of "i + 1" "[(i, round4 w)]"]
      Cons.IH[of "i + 1" sp]
    by simp
qed

lemma sparse_loop_Cons:
  "sparse_loop (w # ws) i [] =
     (if w \<noteq> 0 then [(i, round4 w)] else []) @ sparse_loop ws (i + 1) []"
  using sparse_loop_acc[of ws "i + 1" "[(i, round4 w)]"] by simp









lemma sparse_loop_values:
  "(k, v) \<in> set (sparse_loop ws i []) \<Longrightarrow> \<exists>w \<in> set ws. w \<noteq> 0 \<and> v = round4 w"
proof (induction ws arbitrary: i)
  case Nil
  then show ?case by simp
next
  case (Cons w ws)
  from Cons.prems show ?case
    unfolding sparse_loop_Cons using Cons.IH[of "i + 1"] by (auto split: if_splits)
qed

lemma sparse_loop_has:
  "w \<in> set ws \<Longrightarrow> w \<noteq> 0 \<Longrightarrow> \<exists>k. (k, round4 w) \<in> set (sparse_loop ws i [])"
proof (induction ws arbitrary: i)
  case Nil
  then show ?case by simp
next
  case (Cons x ws)
  from Cons.prems show ?case
    unfolding sparse_loop_Cons using Cons.IH[of "i + 1"] by (auto split: if_splits)
qed




section \<open>Reading the collected files\<close>

lemma read_files_docs:
  "docs (read_files pf tf r fs st) =
     docs st @ concat (map (\<lambda>p. case try_file pf tf r p of
                                   Inr (doc, meta) \<Rightarrow> [doc] | Inl msg \<Rightarrow> []) fs)"
  by (induction fs arbitrary: st) (auto split: sum.splits)

lemma read_files_metas:
  "metas (read_files pf tf r fs st) =
     metas st @ concat (map (\<lambda>p. case try_file pf tf r p of
                                    Inr (doc, meta) \<Rightarrow> [meta] | Inl msg \<Rightarrow> []) fs)"
  by (induction fs arbitrary: st) (auto split: sum.splits)

lemma read_files_warned:
  "warned (read_files pf tf r fs st) =
     warned st @ concat (map (\<lambda>p. case try_file pf tf r p of
                                     Inr (doc, meta) \<Rightarrow> []
                                   | Inl msg \<Rightarrow> [''Skipping '' @ p @ '': '' @ msg]) fs)"
  by (induction fs arbitrary: st) (auto split: sum.splits)

lemma try_file_same_id:
  "try_file pf tf r p = Inr (doc, meta) \<Longrightarrow> m_id meta = d_id doc"
  by (auto simp: try_file_def Let_def split: sum.splits option.splits prod.splits)

lemma try_file_read_error:
  "readFile pf p = Inl e \<Longrightarrow> try_file pf tf r p = Inl (err_message e)"
  by (simp add: try_file_def)

lemma docs_metas_aligned:
  "length (concat (map (\<lambda>p. case try_file pf tf r p of
                            Inr (doc, meta) \<Rightarrow> [meta] | Inl msg \<Rightarrow> []) fs))
     = length (concat (map (\<lambda>p. case try_file pf tf r p of
                            Inr (doc, meta) \<Rightarrow> [doc] | Inl msg \<Rightarrow> []) fs))
   \<and> map m_id (concat (map (\<lambda>p. case try_file pf tf r p of
                            Inr (doc, meta) \<Rightarrow> [meta] | Inl msg \<Rightarrow> []) fs))
     = map d_id (concat (map (\<lambda>p. case try_file pf tf r p of
                            Inr (doc, meta) \<Rightarrow> [doc] | Inl msg \<Rightarrow> []) fs))"
  by (induction fs) (auto simp: try_file_same_id split: sum.splits)

lemma docs_count:
  "length (concat (map (\<lambda>p. case try_file pf tf r p of
                            Inr (doc, meta) \<Rightarrow> [doc] | Inl msg \<Rightarrow> []) fs))
     = length (filter (\<lambda>p. \<not> isl (try_file pf tf r p)) fs)"
  by (induction fs) (auto split: sum.splits)

text \<open>What \<open>buildIndex\<close> returns, by cases on what it found and on the calls that throw.\<close>

lemma buildIndex_cases:
  "buildIndex pf tf opts tree =
     (if build_files pf opts tree = [] then Exited 0 []
      else case vectorize_error tf (build_docs pf tf opts tree) of
             Some err \<Rightarrow> Thrown err
           | None \<Rightarrow>
          (case mkdir pf (build_indexDir pf opts) of
             Some err \<Rightarrow> Thrown (FsError err)
           | None \<Rightarrow>
               (case writeFile pf (getIndexFile (path_join pf) (build_indexDir pf opts)) of
                  Some err \<Rightarrow> Thrown (FsError err)
                | None \<Rightarrow>
                    Returned
                      \<lparr>indexFile_of = getIndexFile (path_join pf) (build_indexDir pf opts),
                       written =
                         \<lparr>version = Some 3, created = Some (now pf),
                          root_path = Some (build_root pf opts),
                          hashDim = Some DEFAULT_hashDim,
                          docCount = Some (length (build_docs pf tf opts tree)),
                          metadata = Some (build_metas pf tf opts tree),
                          vectors =
                            Some (map sparsify
                                    (vectorizeDocuments pf (build_docs pf tf opts tree)
                                       DEFAULT_contentExcerptLength (Some DEFAULT_hashDim)))\<rparr>,
                       warnings = build_warnings pf tf opts tree\<rparr>)))"
proof -
  have u: "buildIndex pf tf opts tree =
     (let root_dir = build_root pf opts;
          indexDir = build_indexDir pf opts;
          indexFile = getIndexFile (path_join pf) indexDir;
          files = build_files pf opts tree
      in if length files = 0 then Exited 0 []
         else
           let st = read_files pf tf root_dir files \<lparr>docs = [], metas = [], warned = []\<rparr>
           in case vectorize_error tf (docs st) of
                Some err \<Rightarrow> Thrown err
              | None \<Rightarrow>
                  let vecs = vectorizeDocuments pf (docs st) DEFAULT_contentExcerptLength
                               (Some DEFAULT_hashDim);
                      sparseVectors = map sparsify vecs
                  in case mkdir pf indexDir of
                       Some err \<Rightarrow> Thrown (FsError err)
                     | None \<Rightarrow>
                         let idx = \<lparr>version = Some 3,
                                    created = Some (now pf),
                                    root_path = Some root_dir,
                                    hashDim = Some DEFAULT_hashDim,
                                    docCount = Some (length (docs st)),
                                    metadata = Some (metas st),
                                    vectors = Some sparseVectors\<rparr>
                         in case writeFile pf indexFile of
                              Some err \<Rightarrow> Thrown (FsError err)
                            | None \<Rightarrow>
                                Returned \<lparr>indexFile_of = indexFile, written = idx,
                                          warnings = warned st\<rparr>)"
    unfolding buildIndex_def build_files_def build_indexDir_def build_root_def Let_def ..
  show ?thesis
    unfolding u Let_def
    by (simp add: read_files_docs read_files_metas read_files_warned build_docs_def
             build_metas_def build_warnings_def split: option.splits)
qed

section \<open>The invariant of the written index\<close>

text \<open>
  C7. Every index the build writes has a metadata sequence, a vectors sequence and a
  \<^verbatim>\<open>docCount\<close> of the same length, and position \<open>i\<close> of the metadata belongs to the
  document whose vector is at position \<open>i\<close> of the vectors: both come from the
  \<open>i\<close>-th document of the build. The vectorizer is a library; what is used of it is
  that it returns one vector for each document.
\<close>

theorem buildIndex_aligned:
  assumes ret: "buildIndex pf tf opts tree = Returned br"
    and lib: "\<forall>ds c h. length (vectorizeDocuments pf ds c h) = length ds"
  shows "\<exists>ms vs. metadata (written br) = Some ms \<and> vectors (written br) = Some vs
           \<and> docCount (written br) = Some (length ms)
           \<and> length vs = length ms
           \<and> length (build_docs pf tf opts tree) = length ms
           \<and> (\<forall>i < length ms.
                 m_id (ms ! i) = d_id (build_docs pf tf opts tree ! i)
                 \<and> vs ! i = sparsify (vectorizeDocuments pf (build_docs pf tf opts tree)
                                        DEFAULT_contentExcerptLength (Some DEFAULT_hashDim) ! i))"
proof -
  let ?ms = "build_metas pf tf opts tree"
  let ?vecs = "vectorizeDocuments pf (build_docs pf tf opts tree)
                 DEFAULT_contentExcerptLength (Some DEFAULT_hashDim)"
  from ret have "written br =
      \<lparr>version = Some 3, created = Some (now pf), root_path = Some (build_root pf opts),
       hashDim = Some DEFAULT_hashDim,
       docCount = Some (length (build_docs pf tf opts tree)),
       metadata = Some ?ms, vectors = Some (map sparsify ?vecs)\<rparr>"
    unfolding buildIndex_cases by (auto split: if_splits option.splits)
  then have w: "metadata (written br) = Some ?ms"
    "vectors (written br) = Some (map sparsify ?vecs)"
    "docCount (written br) = Some (length (build_docs pf tf opts tree))"
    by simp_all
  have al: "length ?ms = length (build_docs pf tf opts tree)"
    "map m_id ?ms = map d_id (build_docs pf tf opts tree)"
    unfolding build_docs_def build_metas_def
    using docs_metas_aligned[of pf tf "build_root pf opts" "build_files pf opts tree"]
    by simp_all
  have lv: "length ?vecs = length ?ms" using lib al(1) by simp
  have ids: "m_id (?ms ! i) = d_id (build_docs pf tf opts tree ! i)" if i: "i < length ?ms" for i
  proof -
    have "m_id (?ms ! i) = map m_id ?ms ! i" using i by (simp only: nth_map)
    also have "\<dots> = map d_id (build_docs pf tf opts tree) ! i" by (simp only: al(2))
    also have "\<dots> = d_id (build_docs pf tf opts tree ! i)"
      using i al(1) by (simp only: nth_map)
    finally show ?thesis .
  qed
  have vs: "map sparsify ?vecs ! i = sparsify (?vecs ! i)" if "i < length ?ms" for i
    using that lv by (simp only: nth_map)
  have "metadata (written br) = Some ?ms \<and> vectors (written br) = Some (map sparsify ?vecs)
           \<and> docCount (written br) = Some (length ?ms)
           \<and> length (map sparsify ?vecs) = length ?ms
           \<and> length (build_docs pf tf opts tree) = length ?ms
           \<and> (\<forall>i < length ?ms.
                 m_id (?ms ! i) = d_id (build_docs pf tf opts tree ! i)
                 \<and> map sparsify ?vecs ! i = sparsify (?vecs ! i))"
    using w al(1) lv ids vs by (simp only: length_map) blast
  then show ?thesis by blast
qed

text \<open>The theorem at the build of the small workspace.\<close>

theorem buildIndex_aligned_witness:
  "(\<forall>ds c h. length (vectorizeDocuments (demo_platform demo_plain_index) ds c h) = length ds)
   \<and> buildIndex (demo_platform demo_plain_index) demo_text demo_build_options demo_tree
       = Returned demo_built
   \<and> metadata (written demo_built) = Some [(demo_meta ''a.md'')\<lparr>m_fingerprint := ''cat dog cat''\<rparr>]
   \<and> vectors (written demo_built) = Some [[(0, 1)]]
   \<and> docCount (written demo_built) = Some 1
   \<and> (\<exists>ms vs. metadata (written demo_built) = Some ms \<and> vectors (written demo_built) = Some vs
           \<and> docCount (written demo_built) = Some (length ms)
           \<and> length vs = length ms)"
proof -
  let ?P = "demo_platform demo_plain_index"
  have ret: "buildIndex ?P demo_text demo_build_options demo_tree = Returned demo_built"
    by code_simp
  have lib: "\<forall>ds c h. length (vectorizeDocuments ?P ds c h) = length ds"
    by (simp add: demo_platform_def)
  have v: "metadata (written demo_built) = Some [(demo_meta ''a.md'')\<lparr>m_fingerprint := ''cat dog cat''\<rparr>]"
    "vectors (written demo_built) = Some [[(0, 1)]]"
    "docCount (written demo_built) = Some 1"
    by (simp_all add: demo_built_def)
  from buildIndex_aligned[OF ret lib] have
    "\<exists>ms vs. metadata (written demo_built) = Some ms \<and> vectors (written demo_built) = Some vs
           \<and> docCount (written demo_built) = Some (length ms)
           \<and> length vs = length ms"
    by blast
  with lib ret v show ?thesis by blast
qed

section \<open>Files that cannot be processed\<close>

text \<open>
  C8. An error on one file is recovered where it occurs, and the build goes on: when
  at least one file was collected, the vectorizer returns on the corpus and the index
  directory and file can be written, \<open>buildIndex\<close> returns, whatever \<^verbatim>\<open>readFile\<close>
  and the calls on the text do on the collected files. Every collected file that
  cannot be read fails its \<^verbatim>\<open>try\<close> block with the message of the read error. The
  corpus given to the vectorizer and the metadata hold exactly the files whose
  \<^verbatim>\<open>try\<close> block ended, in the order of collection, and there is one warning, with
  the path and the message, for each file whose block did not.
\<close>

theorem buildIndex_skips_unreadable:
  assumes some: "build_files pf opts tree \<noteq> []"
    and vec: "vectorize_error tf (build_docs pf tf opts tree) = None"
    and dir: "mkdir pf (build_indexDir pf opts) = None"
    and wr: "writeFile pf (getIndexFile (path_join pf) (build_indexDir pf opts)) = None"
  shows "(\<exists>br. buildIndex pf tf opts tree = Returned br
           \<and> metadata (written br) =
               Some (concat (map (\<lambda>p. case try_file pf tf (build_root pf opts) p of
                                Inr (doc, meta) \<Rightarrow> [meta]
                              | Inl msg \<Rightarrow> [])
                       (build_files pf opts tree)))
           \<and> vectors (written br) =
               Some (map sparsify
                       (vectorizeDocuments pf
                          (concat (map (\<lambda>p. case try_file pf tf (build_root pf opts) p of
                                  Inr (doc, meta) \<Rightarrow> [doc]
                                | Inl msg \<Rightarrow> [])
                             (build_files pf opts tree)))
                          DEFAULT_contentExcerptLength (Some DEFAULT_hashDim)))
           \<and> docCount (written br) =
               Some (length (filter (\<lambda>p. \<not> isl (try_file pf tf (build_root pf opts) p))
                               (build_files pf opts tree)))
           \<and> warnings br =
               concat (map (\<lambda>p. case try_file pf tf (build_root pf opts) p of
                                Inr (doc, meta) \<Rightarrow> []
                              | Inl msg \<Rightarrow> [''Skipping '' @ p @ '': '' @ msg])
                       (build_files pf opts tree)))
         \<and> (\<forall>p e. readFile pf p = Inl e \<longrightarrow>
                try_file pf tf (build_root pf opts) p = Inl (err_message e))"
proof (intro conjI allI impI)
  show "\<exists>br. buildIndex pf tf opts tree = Returned br
           \<and> metadata (written br) =
               Some (concat (map (\<lambda>p. case try_file pf tf (build_root pf opts) p of
                                Inr (doc, meta) \<Rightarrow> [meta]
                              | Inl msg \<Rightarrow> [])
                       (build_files pf opts tree)))
           \<and> vectors (written br) =
               Some (map sparsify
                       (vectorizeDocuments pf
                          (concat (map (\<lambda>p. case try_file pf tf (build_root pf opts) p of
                                  Inr (doc, meta) \<Rightarrow> [doc]
                                | Inl msg \<Rightarrow> [])
                             (build_files pf opts tree)))
                          DEFAULT_contentExcerptLength (Some DEFAULT_hashDim)))
           \<and> docCount (written br) =
               Some (length (filter (\<lambda>p. \<not> isl (try_file pf tf (build_root pf opts) p))
                               (build_files pf opts tree)))
           \<and> warnings br =
               concat (map (\<lambda>p. case try_file pf tf (build_root pf opts) p of
                                Inr (doc, meta) \<Rightarrow> []
                              | Inl msg \<Rightarrow> [''Skipping '' @ p @ '': '' @ msg])
                       (build_files pf opts tree))"
    unfolding buildIndex_cases
    using some vec dir wr
      docs_count[of pf tf "build_root pf opts" "build_files pf opts tree"]
    by (simp add: build_docs_def build_metas_def build_warnings_def)
next
  fix p e assume "readFile pf p = Inl e"
  then show "try_file pf tf (build_root pf opts) p = Inl (err_message e)"
    by (rule try_file_read_error)
qed

text \<open>
  The theorem at the build of the second workspace, where \<^verbatim>\<open>docs/b.MD\<close> is
  collected and cannot be read, and \<^verbatim>\<open>c.md\<close> is read and makes
  \<^verbatim>\<open>parseFrontmatter\<close> throw: the index holds \<^verbatim>\<open>a.md\<close> alone, and there are two
  warnings.
\<close>

theorem buildIndex_skips_unreadable_witness:
  "build_files demo_build_platform demo_build_options demo_build_tree
     = [''/w/a.md'', ''/w/c.md'', ''/w/docs/b.MD'']
   \<and> vectorize_error demo_text
         (build_docs demo_build_platform demo_text demo_build_options demo_build_tree) = None
   \<and> readFile demo_build_platform ''/w/docs/b.MD''
       = Inl (FsErr ''ENOENT'' ''no such file or directory'')
   \<and> readFile demo_build_platform ''/w/c.md'' = Inr demo_bad_frontmatter
   \<and> try_file demo_build_platform demo_text ''/w'' ''/w/docs/b.MD''
       = Inl ''no such file or directory''
   \<and> (\<exists>br. buildIndex demo_build_platform demo_text demo_build_options demo_build_tree
               = Returned br
            \<and> metadata (written br) = Some [(demo_meta ''a.md'')\<lparr>m_fingerprint := ''cat dog cat''\<rparr>]
            \<and> docCount (written br) = Some 1
            \<and> warnings br
                = [''Skipping /w/c.md: frontmatter[currentKey].push is not a function'',
                   ''Skipping /w/docs/b.MD: no such file or directory''])"
proof -
  let ?P = "demo_build_platform"
  let ?fs = "[''/w/a.md'', ''/w/c.md'', ''/w/docs/b.MD'']"
  have fs: "build_files ?P demo_build_options demo_build_tree = ?fs"
    by code_simp
  have some: "build_files ?P demo_build_options demo_build_tree \<noteq> []"
    unfolding fs by simp
  have vec: "vectorize_error demo_text
               (build_docs ?P demo_text demo_build_options demo_build_tree) = None"
    by (simp add: demo_text_def)
  have dir: "mkdir ?P (build_indexDir ?P demo_build_options) = None"
    by (simp add: demo_build_platform_def demo_platform_def)
  have wr: "writeFile ?P (getIndexFile (path_join ?P) (build_indexDir ?P demo_build_options)) = None"
    by (simp add: demo_build_platform_def demo_platform_def)
  have root: "build_root ?P demo_build_options = ''/w''" by code_simp
  have bad: "readFile ?P ''/w/docs/b.MD'' = Inl (FsErr ''ENOENT'' ''no such file or directory'')"
    by code_simp
  have rc: "readFile ?P ''/w/c.md'' = Inr demo_bad_frontmatter"
    by code_simp
  have m: "concat (map (\<lambda>p. case try_file ?P demo_text ''/w'' p of
                                Inr (doc, meta) \<Rightarrow> [meta]
                              | Inl msg \<Rightarrow> []) ?fs)
             = [(demo_meta ''a.md'')\<lparr>m_fingerprint := ''cat dog cat''\<rparr>]"
    by code_simp
  have c: "length (filter (\<lambda>p. \<not> isl (try_file ?P demo_text ''/w'' p)) ?fs) = 1"
    by code_simp
  have w: "concat (map (\<lambda>p. case try_file ?P demo_text ''/w'' p of
                                Inr (doc, meta) \<Rightarrow> []
                              | Inl msg \<Rightarrow> [''Skipping '' @ p @ '': '' @ msg]) ?fs)
             = [''Skipping /w/c.md: frontmatter[currentKey].push is not a function'',
                ''Skipping /w/docs/b.MD: no such file or directory'']"
    by code_simp
  note th = buildIndex_skips_unreadable[OF some vec dir wr]
  from th have t: "try_file ?P demo_text ''/w'' ''/w/docs/b.MD'' = Inl ''no such file or directory''"
    unfolding root using bad by simp
  from th have "\<exists>br. buildIndex ?P demo_text demo_build_options demo_build_tree = Returned br
            \<and> metadata (written br) = Some [(demo_meta ''a.md'')\<lparr>m_fingerprint := ''cat dog cat''\<rparr>]
            \<and> docCount (written br) = Some 1
            \<and> warnings br
                = [''Skipping /w/c.md: frontmatter[currentKey].push is not a function'',
                   ''Skipping /w/docs/b.MD: no such file or directory'']"
    unfolding root fs m c w by blast
  with fs vec bad rc t show ?thesis by blast
qed

section \<open>Collecting files\<close>

lemma collect_found:
  "collectFiles pf opts dir listing files = files @ found pf opts dir listing"
  "collect_entries pf opts dir entries files = files @ found_entries pf opts dir entries"
  by (induction pf opts dir listing files and pf opts dir entries files
       rule: collectFiles_collect_entries.induct) simp_all

lemma found_emptied:
  "found pf opts dir (emptied listing) = found pf opts dir listing"
  "found_entries pf opts dir (emptied_entries entries) = found_entries pf opts dir entries"
  by (induction pf opts dir listing and pf opts dir entries rule: found_found_entries.induct)
     simp_all

lemma found_pruned:
  "found pf opts dir (pruned opts listing) = found pf opts dir listing"
  "found_entries pf opts dir (pruned_entries opts entries) = found_entries pf opts dir entries"
  by (induction pf opts dir listing and pf opts dir entries rule: found_found_entries.induct)
     simp_all

lemma found_entries_append:
  "found_entries pf opts dir (xs @ ys) = found_entries pf opts dir xs @ found_entries pf opts dir ys"
  by (induction pf opts dir xs rule: found_found_entries.induct(2)) simp_all

lemma found_allowed:
  "\<forall>f \<in> set (found pf opts dir listing).
      \<exists>d n. f = path_join pf d n \<and> n \<in> set (file_names listing)
            \<and> toLowerCase pf (extname pf n) \<in> allowedSet opts"
  "\<forall>f \<in> set (found_entries pf opts dir entries).
      \<exists>d n. f = path_join pf d n \<and> n \<in> set (file_names_entries entries)
            \<and> toLowerCase pf (extname pf n) \<in> allowedSet opts"
  by (induction pf opts dir listing and pf opts dir entries rule: found_found_entries.induct)
     (simp_all, blast+)

text \<open>
  C9. The traversal never enters a directory whose name starts with a dot or is in
  the excluded set: what it collects does not depend on the entry for such a
  directory. This holds for the directory \<^verbatim>\<open>.similar-files\<close> of the traversed
  directory, which is the default index directory of that root, so files left there
  by an earlier build are not collected; and it holds at every depth (\<open>pruned\<close>).
  Every path the traversal adds is the path of a file entry outside the skipped
  directories whose lower-cased extension is in the allowed set.
\<close>

theorem collectFiles_skips_index_dir:
  "collectFiles pf opts dir (Some (before @ Directory ''.similar-files'' sub # after)) files
     = collectFiles pf opts dir (Some (before @ after)) files
   \<and> path_join pf dir ''.similar-files'' = getDefaultIndexDir (path_join pf) dir
   \<and> collectFiles pf opts dir listing files = collectFiles pf opts dir (pruned opts listing) files
   \<and> (\<forall>f \<in> set (collectFiles pf opts dir listing files).
         f \<in> set files
         \<or> (\<exists>d n. f = path_join pf d n \<and> n \<in> set (file_names (pruned opts listing))
                  \<and> toLowerCase pf (extname pf n) \<in> allowedSet opts))"
proof (intro conjI ballI)
  have dot: "startsWith ''.similar-files'' ''.''" by (simp add: startsWith_def)
  show "collectFiles pf opts dir (Some (before @ Directory ''.similar-files'' sub # after)) files
          = collectFiles pf opts dir (Some (before @ after)) files"
    using dot by (simp add: collect_found found_entries_append)
  show "path_join pf dir ''.similar-files'' = getDefaultIndexDir (path_join pf) dir"
    by (simp add: getDefaultIndexDir_def)
  show "collectFiles pf opts dir listing files = collectFiles pf opts dir (pruned opts listing) files"
    by (simp add: collect_found found_pruned)
  fix f assume "f \<in> set (collectFiles pf opts dir listing files)"
  then have "f \<in> set files \<or> f \<in> set (found pf opts dir (pruned opts listing))"
    by (simp add: collect_found found_pruned)
  then show "f \<in> set files
         \<or> (\<exists>d n. f = path_join pf d n \<and> n \<in> set (file_names (pruned opts listing))
                  \<and> toLowerCase pf (extname pf n) \<in> allowedSet opts)"
    using found_allowed(1)[of pf opts dir "pruned opts listing"] by blast
qed

text \<open>
  The theorem at the small workspace: with or without the index directory of the
  earlier build, the same two files are collected.
\<close>

theorem collectFiles_skips_index_dir_witness:
  "demo_tree = Some (demo_before
                      @ Directory ''.similar-files'' (Some [File ''index.json'', File ''old.md''])
                      # demo_after)
   \<and> collectFiles (demo_platform demo_plain_index) demo_build_options ''/w'' demo_tree []
       = [''/w/a.md'', ''/w/docs/b.MD'']
   \<and> collectFiles (demo_platform demo_plain_index) demo_build_options ''/w''
         (Some (demo_before @ demo_after)) []
       = [''/w/a.md'', ''/w/docs/b.MD'']
   \<and> getDefaultIndexDir (path_join (demo_platform demo_plain_index)) ''/w'' = ''/w/.similar-files''
   \<and> collectFiles (demo_platform demo_plain_index) demo_build_options ''/w''
         (pruned demo_build_options demo_tree) []
       = [''/w/a.md'', ''/w/docs/b.MD'']"
proof -
  let ?P = "demo_platform demo_plain_index"
  have t: "demo_tree = Some (demo_before
                      @ Directory ''.similar-files'' (Some [File ''index.json'', File ''old.md''])
                      # demo_after)"
    by (simp add: demo_tree_def demo_before_def demo_after_def)
  have c: "collectFiles ?P demo_build_options ''/w'' demo_tree [] = [''/w/a.md'', ''/w/docs/b.MD'']"
    by code_simp
  have g: "path_join ?P ''/w'' ''.similar-files'' = ''/w/.similar-files''"
    by (simp add: demo_platform_def)
  note th = collectFiles_skips_index_dir[of ?P demo_build_options "''/w''" demo_before
         "Some [File ''index.json'', File ''old.md'']" demo_after "[]" demo_tree]
  from th have e1: "collectFiles ?P demo_build_options ''/w''
         (Some (demo_before
                 @ Directory ''.similar-files'' (Some [File ''index.json'', File ''old.md''])
                 # demo_after)) []
       = collectFiles ?P demo_build_options ''/w'' (Some (demo_before @ demo_after)) []"
    by (rule conjunct1)
  from th have e2: "path_join ?P ''/w'' ''.similar-files'' = getDefaultIndexDir (path_join ?P) ''/w''"
    by blast
  from th have e3: "collectFiles ?P demo_build_options ''/w'' demo_tree []
       = collectFiles ?P demo_build_options ''/w'' (pruned demo_build_options demo_tree) []"
    by blast
  have a: "collectFiles ?P demo_build_options ''/w'' (Some (demo_before @ demo_after)) []
             = [''/w/a.md'', ''/w/docs/b.MD'']"
    using e1 c unfolding t by (simp only:)
  have g2: "getDefaultIndexDir (path_join ?P) ''/w'' = ''/w/.similar-files''"
    using e2 g by (simp only:)
  have p: "collectFiles ?P demo_build_options ''/w'' (pruned demo_build_options demo_tree) []
             = [''/w/a.md'', ''/w/docs/b.MD'']"
    using e3 c by (simp only:)
  from t c a g2 p show ?thesis by (intro conjI)
qed

text \<open>
  C10. A directory whose entries cannot be read ends the call of \<open>collectFiles\<close> for
  it with the list collected so far, and the traversal goes on: \<open>collectFiles\<close> has
  no outcome but a list, the list it was given is a prefix of the one it returns, and
  a directory that cannot be read, at any depth, counts as an empty one.
\<close>

theorem collectFiles_unreadable:
  "collectFiles pf opts dir None files = files
   \<and> collect_entries pf opts dir (before @ Directory n None # after) files
       = collect_entries pf opts dir (before @ after) files
   \<and> collectFiles pf opts dir listing files = collectFiles pf opts dir (emptied listing) files
   \<and> (\<exists>new. collectFiles pf opts dir listing files = files @ new)"
  by (simp add: collect_found found_emptied found_entries_append)

text \<open>
  The theorem at the small workspace, whose directories \<^verbatim>\<open>locked\<close> and
  \<^verbatim>\<open>docs/deep\<close> cannot be read.
\<close>

theorem collectFiles_unreadable_witness:
  "collectFiles (demo_platform demo_plain_index) demo_build_options ''/w'' None [''/w/x.md'']
     = [''/w/x.md'']
   \<and> collectFiles (demo_platform demo_plain_index) demo_build_options ''/w'' demo_tree [''/w/x.md'']
       = [''/w/x.md'', ''/w/a.md'', ''/w/docs/b.MD'']
   \<and> collectFiles (demo_platform demo_plain_index) demo_build_options ''/w''
         (emptied demo_tree) [''/w/x.md'']
       = [''/w/x.md'', ''/w/a.md'', ''/w/docs/b.MD'']"
proof -
  let ?P = "demo_platform demo_plain_index"
  have c: "collectFiles ?P demo_build_options ''/w'' demo_tree [''/w/x.md'']
             = [''/w/x.md'', ''/w/a.md'', ''/w/docs/b.MD'']"
    by code_simp
  from collectFiles_unreadable[of ?P demo_build_options "''/w''" "[''/w/x.md'']" "[]" "''locked''"
         "[]" demo_tree]
  show ?thesis
    using c by simp
qed

end
